theory Spec2Isabelle
  imports Complex_Main "HOL-Library.Sublist" "HOL-Library.AList" "HOL-Library.Multiset"
    "HOL-Library.Log_Nat"
begin

section \<open>JavaScript values as the backend sees them\<close>

text \<open>
  The backend (\<^verbatim>\<open>backend/index.js\<close>) is an Express application: request bodies,
  stored sessions and responses are plain JSON-like objects. A value is modelled by
  \<open>jsval\<close>; an object is an association list in property order, and reading a missing
  property gives \<open>JUndefined\<close> as in JavaScript. A number is the rational value of a
  finite IEEE-754 double; \<open>NaN\<close> is the \<open>None\<close> of \<open>to_number\<close>, and the
  infinities are not represented. The checkout handler computes its amounts as the
  double arithmetic does, every operation rounded by \<open>double_of\<close> below; the lamport
  and token amounts of the transfer and swap handlers are products taken exactly.
\<close>

datatype jsval =
    JUndefined
  | JNull
  | JBool bool
  | JNum rat
  | JStr string
  | JArr "jsval list"
  | JObject "(string \<times> jsval) list"

type_synonym obj = "(string \<times> jsval) list"

text \<open>Property read \<^verbatim>\<open>o.k\<close> and property write \<^verbatim>\<open>o.k = v\<close> on an object.\<close>

definition get_prop :: "obj \<Rightarrow> string \<Rightarrow> jsval" where
  "get_prop ob k = (case map_of ob k of None \<Rightarrow> JUndefined | Some v \<Rightarrow> v)"

definition assign :: "obj \<Rightarrow> string \<Rightarrow> jsval \<Rightarrow> obj" where
  "assign ob k v = AList.update k v ob"

text \<open>
  \<^verbatim>\<open>v?.k\<close> on any value: a property of an object, undefined for every other value.
\<close>

fun member_of :: "jsval \<Rightarrow> string \<Rightarrow> jsval" where
  "member_of (JObject kvs) k = get_prop kvs k"
| "member_of _ k = JUndefined"

text \<open>Truthiness, as used by \<^verbatim>\<open>!x\<close>, \<^verbatim>\<open>x && y\<close>, \<^verbatim>\<open>x || y\<close> and \<^verbatim>\<open>Boolean(x)\<close>.\<close>

fun truthy :: "jsval \<Rightarrow> bool" where
  "truthy JUndefined = False"
| "truthy JNull = False"
| "truthy (JBool b) = b"
| "truthy (JNum x) = (x \<noteq> 0)"
| "truthy (JStr s) = (s \<noteq> [])"
| "truthy (JArr xs) = True"
| "truthy (JObject kvs) = True"

text \<open>\<^verbatim>\<open>a || b\<close> on values.\<close>

definition js_or :: "jsval \<Rightarrow> jsval \<Rightarrow> jsval" where
  "js_or a b = (if truthy a then a else b)"

text \<open>
  \<^verbatim>\<open>typeof v === 'string'\<close>, and the amount check of the handlers: with
  \<^verbatim>\<open>typeof amount !== 'number' || isNaN(amount) || amount <= 0\<close> (or
  \<^verbatim>\<open>typeof amount !== 'number' || amount <= 0\<close>) the handler rejects; otherwise the
  amount is a positive number.
\<close>

definition is_string :: "jsval \<Rightarrow> bool" where
  "is_string v = (case v of JStr s \<Rightarrow> True | _ \<Rightarrow> False)"

definition checked_amount :: "jsval \<Rightarrow> rat option" where
  "checked_amount amount = (case amount of JNum a \<Rightarrow> if a \<le> 0 then None else Some a | _ \<Rightarrow> None)"

text \<open>
  What the handlers use but the repository does not define is a parameter of the model:
  the language's conversions between strings and numbers (\<^verbatim>\<open>Number(s)\<close>,
  \<^verbatim>\<open>String(x)\<close>, \<^verbatim>\<open>x.toFixed(n)\<close>), whether the library's
  \<^verbatim>\<open>new PublicKey(v)\<close> accepts a value, and the module-level configuration read
  from the process environment at start-up: \<open>fundingKeypair\<close> is the funding
  account's public key, \<open>None\<close> when no secret was configured, and
  \<open>PRICE_USD\<close>, \<open>PRICE_INR\<close> are \<^verbatim>\<open>process.env.PRICE_USD || 100\<close> and
  \<^verbatim>\<open>process.env.PRICE_INR || 100\<close> (a string when set in the environment);
  \<open>BACKEND_URL\<close> and \<open>FRONTEND_URL\<close> are the environment variables of these names.
\<close>

record runtime =
  str2num :: "string \<Rightarrow> rat option"
  num2str :: "rat \<Rightarrow> string"
  toFixed :: "nat \<Rightarrow> rat \<Rightarrow> string"
  PublicKey_ok :: "jsval \<Rightarrow> bool"
  fundingKeypair :: "string option"
  PRICE_USD :: jsval
  PRICE_INR :: jsval
  BACKEND_URL :: "string option"
  FRONTEND_URL :: "string option"

fun join_comma :: "string list \<Rightarrow> string" where
  "join_comma [] = []"
| "join_comma [s] = s"
| "join_comma (s # t # ss) = s @ '','' @ join_comma (t # ss)"

text \<open>\<^verbatim>\<open>String(v)\<close>, which is also what a template literal \<^verbatim>\<open>`${v}`\<close> inserts.\<close>

fun to_string :: "runtime \<Rightarrow> jsval \<Rightarrow> string" where
  "to_string R JUndefined = ''undefined''"
| "to_string R JNull = ''null''"
| "to_string R (JBool b) = (if b then ''true'' else ''false'')"
| "to_string R (JNum x) = num2str R x"
| "to_string R (JStr s) = s"
| "to_string R (JArr xs) =
     join_comma (map (\<lambda>x. if x = JNull \<or> x = JUndefined then [] else to_string R x) xs)"
| "to_string R (JObject kvs) = ''[object Object]''"

text \<open>\<^verbatim>\<open>Number(v)\<close>; \<open>None\<close> stands for \<open>NaN\<close>.\<close>

fun to_number :: "runtime \<Rightarrow> jsval \<Rightarrow> rat option" where
  "to_number R JUndefined = None"
| "to_number R JNull = Some 0"
| "to_number R (JBool b) = Some (if b then 1 else 0)"
| "to_number R (JNum x) = Some x"
| "to_number R (JStr s) = str2num R s"
| "to_number R (JArr xs) = str2num R (to_string R (JArr xs))"
| "to_number R (JObject kvs) = None"

text \<open>
  \<^verbatim>\<open>Math.round\<close> gives the integer nearest to the exact value of its argument, a half
  going up; \<^verbatim>\<open>Math.ceil\<close> is the ceiling.
\<close>

definition Math_round :: "rat \<Rightarrow> int" where
  "Math_round x = \<lfloor>x + 1 / 2\<rfloor>"

definition Math_ceil :: "rat \<Rightarrow> int" where
  "Math_ceil x = \<lceil>x\<rceil>"

text \<open>
  The value of an arithmetic operation on doubles is the exact result rounded to the
  nearest binary64 value, a tie going to the value with the even significand.
  \<open>double_of x\<close> is that rounding. \<open>binade x\<close> is the exponent of the power of two at or
  below \<open>\<bar>x\<bar>\<close>, found from the bit lengths of numerator and denominator; a double
  has 53 significant bits, so the doubles around \<open>x\<close> are the multiples of \<open>2\<^sup>e\<close> with
  \<open>e = binade x - 52\<close>, and of \<open>2\<^sup>-\<^sup>1\<^sup>0\<^sup>7\<^sup>4\<close> below the normal range. A result beyond the
  largest double is \<open>Infinity\<close> in JavaScript, which a rational does not represent:
  \<open>finite_double x\<close> says that \<open>x\<close> rounds to a finite double, and what is proved about
  computed amounts is stated for such results.
\<close>

definition pow2 :: "int \<Rightarrow> rat" where
  "pow2 k = (if 0 \<le> k then 2 ^ nat k else 1 / 2 ^ nat (- k))"

definition binade :: "rat \<Rightarrow> int" where
  "binade x =
     (let (p, q) = quotient_of \<bar>x\<bar>; k = bitlen p - bitlen q
      in if pow2 k \<le> \<bar>x\<bar> then k else k - 1)"

definition round_even :: "rat \<Rightarrow> int" where
  "round_even y =
     (let n = \<lfloor>y\<rfloor>
      in if y - of_int n < 1 / 2 \<or> (y - of_int n = 1 / 2 \<and> even n) then n else n + 1)"

definition double_of :: "rat \<Rightarrow> rat" where
  "double_of x =
     (if x = 0 then 0
      else let e = max (binade x - 52) (- 1074)
           in of_int (round_even (x / pow2 e)) * pow2 e)"


text \<open>
  \<^verbatim>\<open>parseFloat(x.toFixed(8))\<close>. \<^verbatim>\<open>toFixed\<close> treats the sign apart and takes the integer
  \<open>n\<close> for which \<open>n / 10\<^sup>8\<close> is nearest to the exact value of the double, the larger
  \<open>n\<close> on a tie; \<^verbatim>\<open>parseFloat\<close> reads the digits back as the nearest double. From
  \<open>10\<^sup>2\<^sup>1\<close> on \<^verbatim>\<open>toFixed\<close> prints the number as \<^verbatim>\<open>String\<close> does, and reading that
  text gives the double back.
\<close>

definition toFixed8 :: "rat \<Rightarrow> rat" where
  "toFixed8 x =
     (if 10 ^ 21 \<le> \<bar>x\<bar> then x
      else if x < 0 then double_of (- (of_int \<lfloor>- x * 100000000 + 1 / 2\<rfloor> / 100000000))
      else double_of (of_int \<lfloor>x * 100000000 + 1 / 2\<rfloor> / 100000000))"

section \<open>Priority fee estimate\<close>

text \<open>
  \<^verbatim>\<open>getDynamicPriorityFee(connection)\<close>. The connection's answer to
  \<^verbatim>\<open>getRecentPrioritizationFees()\<close> is the argument: \<open>Inl\<close> when the call throws,
  \<open>Inr\<close> with the observations otherwise. \<^verbatim>\<open>Array.prototype.sort\<close> is stable, as
  \<open>sort_key\<close> is; sorting by descending slot is sorting by the negated slot.
\<close>

record fee_observation =
  slot :: int
  prioritizationFee :: int

definition getDynamicPriorityFee :: "string + fee_observation list \<Rightarrow> int" where
  "getDynamicPriorityFee sampled =
     (case sampled of
        Inl error \<Rightarrow> 200000
      | Inr priorityFees \<Rightarrow>
          if length priorityFees > 0 then
            let sorted_fees = sort_key (\<lambda>a. - slot a) priorityFees;
                recentFees = map prioritizationFee (take 5 sorted_fees);
                medianFee = sort recentFees ! (length recentFees div 2);
                suggestedFee = Math_ceil (of_int medianFee * (12 / 10))
            in min (max suggestedFee 100000) 1000000
          else 200000)"

section \<open>The session store\<close>

text \<open>
  \<^verbatim>\<open>const paymentSessions = new Map()\<close>: session objects keyed by session id. Every key
  is written by the checkout handler and is a string, so \<^verbatim>\<open>has(v)\<close> is false for a value
  that is not a string. The handlers test \<^verbatim>\<open>sessionId && paymentSessions.has(sessionId)\<close>
  and then read the session: \<open>find_session\<close> is that test and read.
\<close>

type_synonym store = "string \<Rightarrow> obj option"

type_synonym response = "nat \<times> obj"

definition find_session :: "store \<Rightarrow> jsval \<Rightarrow> (string \<times> obj) option" where
  "find_session paymentSessions sessionId =
     (case sessionId of
        JStr k \<Rightarrow>
          (if truthy sessionId then
             (case paymentSessions k of None \<Rightarrow> None | Some session \<Rightarrow> Some (k, session))
           else None)
      | _ \<Rightarrow> None)"

section \<open>Direct SOL transfer\<close>

text \<open>
  \<^verbatim>\<open>app.post('/api/transfer-sol')\<close>. What the network answers during one call is the
  record \<open>transfer_io\<close>: each awaited call either throws an error with a message
  (\<open>Inl\<close>) or returns. The handler's result is the response (status code and JSON
  body), the store after the call, and the transactions handed to
  \<^verbatim>\<open>sendTransaction\<close>. The request body is taken to be an object, and building and
  signing the transaction locally is taken not to throw.
\<close>

record transfer_io =
  tr_getLatestBlockhash :: "string + unit"
  tr_getRecentPrioritizationFees :: "string + fee_observation list"
  tr_sendTransaction :: "string + string"
  tr_getSignatureStatus :: "string + unit"
  tr_now :: string

record sol_transfer =
  fromPubkey :: string
  toPubkey :: jsval
  lamports :: int
  priorityFee :: int

definition SOL_AMOUNT :: rat where
  "SOL_AMOUNT = 1 / 10"

text \<open>\<^verbatim>\<open>const { x = d } = req.body\<close>: the default applies when the property is undefined.\<close>

definition with_default :: "obj \<Rightarrow> string \<Rightarrow> jsval \<Rightarrow> jsval" where
  "with_default body k d = (if get_prop body k = JUndefined then d else get_prop body k)"

text \<open>\<^verbatim>\<open>message.includes(p)\<close> is \<open>sublist p message\<close>.\<close>

definition retryable_message :: "string \<Rightarrow> bool" where
  "retryable_message message =
     (sublist ''BlockheightExceededError'' message \<or>
      sublist ''TimeoutError'' message \<or>
      sublist ''block height exceeded'' message)"

text \<open>
  \<^verbatim>\<open>retryCount < 3\<close> and \<^verbatim>\<open>retryCount + 1\<close> with JavaScript's coercions. The sum
  with undefined is \<open>NaN\<close>, which the JSON answer writes as null; the default keeps
  \<^verbatim>\<open>retryCount\<close> from being undefined.
\<close>

definition js_less :: "runtime \<Rightarrow> jsval \<Rightarrow> rat \<Rightarrow> bool" where
  "js_less R v k = (case to_number R v of None \<Rightarrow> False | Some x \<Rightarrow> x < k)"

fun js_plus_1 :: "runtime \<Rightarrow> jsval \<Rightarrow> jsval" where
  "js_plus_1 R (JNum x) = JNum (x + 1)"
| "js_plus_1 R JNull = JNum 1"
| "js_plus_1 R (JBool b) = JNum (if b then 2 else 1)"
| "js_plus_1 R JUndefined = JNull"
| "js_plus_1 R v = JStr (to_string R v @ ''1'')"

text \<open>The \<^verbatim>\<open>catch (txError)\<close> block.\<close>

definition transfer_failed :: "runtime \<Rightarrow> jsval \<Rightarrow> string \<Rightarrow> response" where
  "transfer_failed R retryCount message =
     (if retryable_message message \<and> js_less R retryCount 3 then
        (500, [(''status'', JStr ''error''),
               (''error'', JStr ''Transaction failed but will be retried automatically''),
               (''retryScheduled'', JBool True),
               (''retryCount'', js_plus_1 R retryCount)])
      else
        (500, [(''status'', JStr ''error''),
               (''error'', JStr (''Transaction failed: '' @ message)),
               (''details'', JStr message)]))"

text \<open>
  The awaited calls of the \<^verbatim>\<open>try\<close> block in order: the first that throws ends the
  block with its message; otherwise the block has the signature.
\<close>

definition try_broadcast :: "transfer_io \<Rightarrow> string + string" where
  "try_broadcast io =
     (case tr_getLatestBlockhash io of
        Inl message \<Rightarrow> Inl message
      | Inr _ \<Rightarrow>
          (case tr_sendTransaction io of
             Inl message \<Rightarrow> Inl message
           | Inr signature \<Rightarrow>
               (case tr_getSignatureStatus io of
                  Inl message \<Rightarrow> Inl message
                | Inr _ \<Rightarrow> Inr signature)))"

definition submitted :: "transfer_io \<Rightarrow> sol_transfer \<Rightarrow> sol_transfer list" where
  "submitted io transaction =
     (case tr_getLatestBlockhash io of Inl _ \<Rightarrow> [] | Inr _ \<Rightarrow> [transaction])"

text \<open>The update of the session object after a successful broadcast.\<close>

definition record_transfer :: "obj \<Rightarrow> string \<Rightarrow> string \<Rightarrow> string \<Rightarrow> jsval \<Rightarrow> obj" where
  "record_transfer session signature explorerLink now amount =
     (let session1 =
            (if truthy (get_prop session ''isTokenSwap'') then
               assign (assign (assign session
                 ''status'' (JStr ''sol_received''))
                 ''solSignature'' (JStr signature))
                 ''solExplorerLink'' (JStr explorerLink)
             else
               assign (assign (assign session
                 ''status'' (JStr ''sol_transferred''))
                 ''signature'' (JStr signature))
                 ''explorerLink'' (JStr explorerLink))
      in assign (assign session1
           ''transferTimestamp'' (JStr now))
           ''transferredSolAmount'' amount)"

definition transfer_success :: "runtime \<Rightarrow> string \<Rightarrow> string \<Rightarrow> jsval \<Rightarrow> response" where
  "transfer_success R signature explorerLink amount =
     (200, [(''status'', JStr ''success''),
            (''transaction'', JStr signature),
            (''explorerLink'', JStr explorerLink),
            (''amount'', amount),
            (''message'', JStr (''SOL transfer of '' @ to_string R amount @
                '' initiated successfully. Transaction sent to network.''))])"

definition transfer_sol ::
  "runtime \<Rightarrow> transfer_io \<Rightarrow> obj \<Rightarrow> store \<Rightarrow> response \<times> store \<times> sol_transfer list" where
  "transfer_sol R io body paymentSessions =
     (let walletAddress = get_prop body ''walletAddress'';
          amount = with_default body ''amount'' (JNum SOL_AMOUNT);
          sessionId = get_prop body ''sessionId'';
          retryCount = with_default body ''retryCount'' (JNum 0)
      in
      if \<not> truthy walletAddress then
        ((400, [(''status'', JStr ''error''), (''error'', JStr ''Wallet address is required'')]),
         paymentSessions, [])
      else
      case fundingKeypair R of
        None \<Rightarrow>
          ((500, [(''status'', JStr ''error''),
                  (''error'', JStr ''Funding wallet not initialized. Check FUNDING_WALLET_SECRET environment variable.'')]),
           paymentSessions, [])
      | Some funding \<Rightarrow>
      if \<not> PublicKey_ok R walletAddress then
        ((400, [(''status'', JStr ''error''),
                (''error'', JStr (''Invalid wallet address: '' @ to_string R walletAddress))]),
         paymentSessions, [])
      else
      case checked_amount amount of
        None \<Rightarrow>
          ((400, [(''status'', JStr ''error''),
                  (''error'', JStr (''Invalid amount: '' @ to_string R amount))]),
           paymentSessions, [])
      | Some a \<Rightarrow>
      let transaction =
            \<lparr>fromPubkey = funding, toPubkey = walletAddress,
             lamports = Math_round (a * 1000000000),
             priorityFee = getDynamicPriorityFee (tr_getRecentPrioritizationFees io)\<rparr>
      in
      case try_broadcast io of
        Inl message \<Rightarrow>
          (transfer_failed R retryCount message, paymentSessions, submitted io transaction)
      | Inr signature \<Rightarrow>
          let explorerLink = ''https://solscan.io/tx/'' @ signature;
              paymentSessions1 =
                (case find_session paymentSessions sessionId of
                   None \<Rightarrow> paymentSessions
                 | Some (k, session) \<Rightarrow>
                     paymentSessions(k \<mapsto>
                       record_transfer session signature explorerLink (tr_now io) amount))
          in
          (transfer_success R signature explorerLink amount,
           paymentSessions1, submitted io transaction))"

section \<open>Checkout session creation\<close>

text \<open>
  \<^verbatim>\<open>app.post('/api/create-checkout-session')\<close>. The record \<open>create_io\<close> holds what
  the outside answers during one call: the price feed (\<open>None\<close> when
  \<^verbatim>\<open>getCurrentSolPrice\<close> returns \<^verbatim>\<open>null\<close>), the clock and the random source that
  make the session id, and the payment provider's answer to
  \<^verbatim>\<open>stripe.checkout.sessions.create\<close> (\<open>Inl\<close> when it throws). The exchange rates
  are taken to be numbers other than zero: a division by a zero rate is \<open>Infinity\<close> in
  JavaScript, which a rational does not represent.
\<close>

record sol_price =
  usd :: rat
  inr :: rat

record create_io =
  cr_getCurrentSolPrice :: "sol_price option"
  cr_Date_now :: string
  cr_Math_random :: string
  cr_toISOString :: string
  cr_stripe_create :: "string + obj"

text \<open>
  The test \<^verbatim>\<open>/^[^\s@]+@[^\s@]+\.[^\s@]+$/.test(email)\<close>. Neither part may hold an
  \<^verbatim>\<open>@\<close> or white space, so a match splits at the only \<^verbatim>\<open>@\<close>, and the part after it
  has a dot that is neither its first nor its last character. White space is the ASCII
  white space here (characters are bytes).
\<close>

definition white_space :: "char \<Rightarrow> bool" where
  "white_space c = (c \<in> set [CHR '' '', CHR 0x09, CHR 0x0A, CHR 0x0B, CHR 0x0C, CHR 0x0D])"

definition plain_chars :: "string \<Rightarrow> bool" where
  "plain_chars cs = list_all (\<lambda>c. \<not> white_space c \<and> c \<noteq> CHR ''@'') cs"

definition email_regex :: "string \<Rightarrow> bool" where
  "email_regex s =
     (let local_part = takeWhile (\<lambda>c. c \<noteq> CHR ''@'') s;
          rest = dropWhile (\<lambda>c. c \<noteq> CHR ''@'') s
      in rest \<noteq> [] \<and> local_part \<noteq> [] \<and> plain_chars local_part \<and> plain_chars (tl rest) \<and>
         CHR ''.'' \<in> set (butlast (tl (tl rest))))"

text \<open>
  \<^verbatim>\<open>country && typeof country !== 'string' || (country && country.length !== 2)\<close>.
\<close>

definition bad_country :: "jsval \<Rightarrow> bool" where
  "bad_country country =
     (truthy country \<and> (case country of JStr s \<Rightarrow> length s \<noteq> 2 | _ \<Rightarrow> True))"

text \<open>\<^verbatim>\<open>x && typeof x === 'number' && x > 0\<close>, and the number of such a value.\<close>

definition positive_number :: "jsval \<Rightarrow> bool" where
  "positive_number x = (case x of JNum v \<Rightarrow> v \<noteq> 0 \<and> v > 0 | _ \<Rightarrow> False)"

fun number_of :: "jsval \<Rightarrow> rat" where
  "number_of (JNum v) = v"
| "number_of _ = 0"

text \<open>
  The three cases that resolve the fiat amount (in the currency's smallest unit) and the
  SOL amount. \<open>amount\<close> is the configured default price and \<open>rate\<close> the price of one
  SOL in the selected currency. Every product and quotient is a double operation:
  \<^verbatim>\<open>solAmount * rate * 100\<close> is two multiplications, each rounded. In the third case a
  default that is not a number gives a SOL amount that is never used: the validation
  that follows the cases returns first.
\<close>

definition resolve_amounts :: "jsval \<Rightarrow> rat \<Rightarrow> jsval \<Rightarrow> jsval \<Rightarrow> jsval \<times> rat" where
  "resolve_amounts amount rate solAmount dollarAmount =
     (if positive_number solAmount then
        (JNum (of_int (Math_round
           (double_of (double_of (number_of solAmount * rate) * 100)))),
         number_of solAmount)
      else if positive_number dollarAmount then
        let amount1 = of_int (Math_round (double_of (number_of dollarAmount * 100)));
            paymentAmount = double_of (amount1 / 100)
        in (JNum amount1, double_of (paymentAmount / rate))
      else
        (amount,
         (case amount of JNum a \<Rightarrow> double_of (double_of (a / 100) / rate) | _ \<Rightarrow> 0)))"

text \<open>
  \<^verbatim>\<open>`session_${Date.now()}_${Math.random().toString(36).substring(2, 15)}`\<close>, from the
  decimal text of the clock and the text drawn from the random source.
\<close>

definition uniqueSessionId :: "create_io \<Rightarrow> string" where
  "uniqueSessionId io = ''session_'' @ cr_Date_now io @ ''_'' @ cr_Math_random io"

definition env_or :: "string option \<Rightarrow> string \<Rightarrow> string" where
  "env_or v d = (case v of None \<Rightarrow> d | Some s \<Rightarrow> if s = [] then d else s)"

text \<open>The request sent to the payment provider.\<close>

definition checkout_request ::
  "runtime \<Rightarrow> obj \<Rightarrow> string \<Rightarrow> rat \<Rightarrow> rat \<Rightarrow> string \<Rightarrow> string \<Rightarrow> string \<Rightarrow> obj" where
  "checkout_request R body currency amount finalSolAmount sessionId backendUrl frontendUrl =
     (let walletAddress = get_prop body ''walletAddress'';
          email = get_prop body ''email'';
          tokenSymbol = get_prop body ''tokenSymbol'';
          tokenAddress = get_prop body ''tokenAddress'';
          tokenAmount = get_prop body ''tokenAmount'';
          displaySolAmount = toFixed R 4 finalSolAmount;
          isTokenSwap = truthy tokenSymbol;
          productName =
            (if isTokenSwap then to_string R tokenSymbol @ '' Token Purchase (via SOL)''
             else ''Solana Mainnet Top-up ('' @ displaySolAmount @ '' SOL)'');
          productDescription =
            (if isTokenSwap then
               ''Buy '' @ to_string R (js_or tokenAmount (JStr ''tokens'')) @ '' '' @
               to_string R tokenSymbol @ '' using SOL on Solana Mainnet''
             else ''Adds '' @ displaySolAmount @ '' SOL to your Solana wallet on Mainnet'')
      in
      [(''payment_method_types'', JArr [JStr ''card'']),
       (''mode'', JStr ''payment''),
       (''line_items'', JArr [JObject
          [(''price_data'', JObject
              [(''currency'', JStr currency),
               (''product_data'', JObject
                  [(''name'', JStr productName), (''description'', JStr productDescription)]),
               (''unit_amount'', JNum amount)]),
           (''quantity'', JNum 1)]]),
       (''metadata'', JObject
          [(''walletAddress'', walletAddress),
           (''solAmount'', JStr (num2str R finalSolAmount)),
           (''fiatAmount'', JStr (num2str R (double_of (amount / 100)))),
           (''fiatCurrency'', JStr currency),
           (''sessionId'', JStr sessionId),
           (''isTokenSwap'', JStr (if isTokenSwap then ''true'' else ''false'')),
           (''tokenSymbol'', js_or tokenSymbol (JStr [])),
           (''tokenAddress'', js_or tokenAddress (JStr [])),
           (''tokenAmount'',
              (if truthy tokenAmount then JStr (to_string R tokenAmount) else JStr []))]),
       (''success_url'', JStr (backendUrl @ ''/payment-success?amount='' @
           num2str R finalSolAmount @ ''&wallet='' @ to_string R walletAddress @
           ''&success=true&session_id='' @ sessionId @
           (if isTokenSwap then
              ''&token_swap=true&token_symbol='' @ to_string R tokenSymbol @
              ''&token_address='' @ to_string R tokenAddress
            else []))),
       (''cancel_url'', JStr (frontendUrl @ ''?canceled=true'')),
       (''customer_email'', js_or email JUndefined)])"

text \<open>
  The session object stored for a new checkout, and the answer to the request;
  \<open>session\<close> is the payment provider's checkout session.
\<close>

definition new_session :: "obj \<Rightarrow> string \<Rightarrow> rat \<Rightarrow> string \<Rightarrow> bool \<Rightarrow> obj \<Rightarrow> obj" where
  "new_session session now finalSolAmount sessionId isTokenSwap body =
     [(''id'', JStr sessionId),
      (''stripeSessionId'', get_prop session ''id''),
      (''walletAddress'', get_prop body ''walletAddress''),
      (''amount'', get_prop session ''amount_total''),
      (''currency'', get_prop session ''currency''),
      (''status'', JStr ''created''),
      (''timestamp'', JStr now),
      (''solAmount'', JNum finalSolAmount),
      (''isTokenSwap'', JBool isTokenSwap),
      (''tokenSymbol'', js_or (get_prop body ''tokenSymbol'') JNull),
      (''tokenAddress'', js_or (get_prop body ''tokenAddress'') JNull),
      (''tokenAmount'', js_or (get_prop body ''tokenAmount'') JNull)]"

definition create_success ::
  "obj \<Rightarrow> string \<Rightarrow> rat \<Rightarrow> rat \<Rightarrow> string \<Rightarrow> bool \<Rightarrow> obj \<Rightarrow> response" where
  "create_success session currency amount finalSolAmount sessionId isTokenSwap body =
     (200, [(''url'', get_prop session ''url''),
            (''solAmount'', JNum finalSolAmount),
            (''fiatAmount'', JNum (double_of (amount / 100))),
            (''fiatCurrency'', JStr currency),
            (''sessionId'', JStr sessionId),
            (''isTokenSwap'', JBool isTokenSwap),
            (''tokenSymbol'', js_or (get_prop body ''tokenSymbol'') JNull),
            (''tokenAmount'', js_or (get_prop body ''tokenAmount'') JNull)])"

definition create_checkout_session ::
  "runtime \<Rightarrow> create_io \<Rightarrow> obj \<Rightarrow> store \<Rightarrow> response \<times> store \<times> obj list" where
  "create_checkout_session R io body paymentSessions =
     (let walletAddress = get_prop body ''walletAddress'';
          email = get_prop body ''email'';
          country = get_prop body ''country'';
          dollarAmount = get_prop body ''dollarAmount'';
          solAmount = get_prop body ''solAmount'';
          tokenSymbol = get_prop body ''tokenSymbol'';
          tokenAddress = get_prop body ''tokenAddress'';
          tokenAmount = get_prop body ''tokenAmount''
      in
      if \<not> truthy walletAddress \<or> \<not> is_string walletAddress then
        ((400, [(''error'', JStr ''Missing or invalid walletAddress'')]), paymentSessions, [])
      else if truthy email \<and> \<not> email_regex (to_string R email) then
        ((400, [(''error'', JStr ''Invalid email format'')]), paymentSessions, [])
      else if bad_country country then
        ((400, [(''error'', JStr ''Invalid country code'')]), paymentSessions, [])
      else
      case cr_getCurrentSolPrice io of
        None \<Rightarrow>
          ((500, [(''error'', JStr ''Unable to fetch current SOL price'')]), paymentSessions, [])
      | Some solPrice \<Rightarrow>
      let currency = (if country = JStr ''IN'' then ''inr'' else ''usd'');
          amount0 = (if country = JStr ''IN'' then PRICE_INR R else PRICE_USD R);
          rate = (if currency = ''usd'' then usd solPrice else inr solPrice);
          (amount, finalSolAmount0) = resolve_amounts amount0 rate solAmount dollarAmount
      in
      case checked_amount amount of
        None \<Rightarrow> ((500, [(''error'', JStr ''Invalid price configuration'')]), paymentSessions, [])
      | Some a \<Rightarrow>
      let backendUrl = env_or (BACKEND_URL R) ''http://localhost:4000'';
          frontendUrl = env_or (FRONTEND_URL R) ''http://localhost:3000''
      in
      if backendUrl = [] \<or> frontendUrl = [] then
        ((500, [(''error'', JStr ''Missing required URL configuration'')]), paymentSessions, [])
      else
      let finalSolAmount = toFixed8 finalSolAmount0;
          isTokenSwap = truthy tokenSymbol;
          request = checkout_request R body currency a finalSolAmount (uniqueSessionId io)
                      backendUrl frontendUrl
      in
      case cr_stripe_create io of
        Inl message \<Rightarrow>
          ((500, [(''error'', JStr ''Could not create checkout session'')]),
           paymentSessions, [request])
      | Inr session \<Rightarrow>
          (create_success session currency a finalSolAmount (uniqueSessionId io) isTokenSwap body,
           paymentSessions(uniqueSessionId io \<mapsto>
             new_session session (cr_toISOString io) finalSolAmount (uniqueSessionId io)
               isTokenSwap body),
           [request]))"

text \<open>
  The price of one SOL in the currency selected by the country code, and the amount in the
  smallest unit that a request to the payment provider charges.
\<close>

definition selected_rate :: "sol_price \<Rightarrow> jsval \<Rightarrow> rat" where
  "selected_rate solPrice country = (if country = JStr ''IN'' then inr solPrice else usd solPrice)"

definition charged_amount :: "obj \<Rightarrow> jsval" where
  "charged_amount request =
     (case get_prop request ''line_items'' of
        JArr (item # _) \<Rightarrow> member_of (member_of item ''price_data'') ''unit_amount''
      | _ \<Rightarrow> JUndefined)"

section \<open>Payment success page and payment status\<close>

text \<open>
  \<^verbatim>\<open>app.get('/payment-success')\<close>. The handler builds a local object \<open>sessionData\<close>
  and answers with a page whose script posts a \<^verbatim>\<open>PAYMENT_COMPLETE\<close> message to the
  opener window. The result here is that message, each field with the text the template
  inserts for it, and the store after the call.
\<close>

definition payment_success :: "runtime \<Rightarrow> obj \<Rightarrow> store \<Rightarrow> obj \<times> store" where
  "payment_success R query paymentSessions =
     (let session_id = get_prop query ''session_id'';
          wallet = get_prop query ''wallet'';
          amount = get_prop query ''amount'';
          token_swap = get_prop query ''token_swap'';
          token_symbol = get_prop query ''token_symbol'';
          token_address = get_prop query ''token_address'';
          sessionData0 =
            [(''walletAddress'', js_or wallet (JStr ''unknown'')),
             (''status'', JStr ''payment_completed''),
             (''amount'', js_or amount (JNum (1 / 10))),
             (''sessionId'', js_or session_id (JStr [])),
             (''isTokenSwap'', JBool False),
             (''tokenSymbol'', js_or token_symbol (JStr [])),
             (''tokenAddress'', js_or token_address (JStr []))];
          sessionData =
            (case find_session paymentSessions session_id of
               Some (k, storedSession) \<Rightarrow>
                 assign (assign (assign (assign (assign (assign sessionData0
                   ''status'' (JStr ''payment_completed''))
                   ''solAmount'' (get_prop storedSession ''solAmount''))
                   ''isTokenSwap'' (JBool (truthy (get_prop storedSession ''isTokenSwap''))))
                   ''tokenSymbol'' (get_prop storedSession ''tokenSymbol''))
                   ''tokenAddress'' (get_prop storedSession ''tokenAddress''))
                   ''tokenAmount'' (get_prop storedSession ''tokenAmount'')
             | None \<Rightarrow>
                 if truthy token_swap then
                   assign (assign (assign sessionData0
                     ''isTokenSwap'' (JBool (token_swap = JStr ''true'')))
                     ''tokenSymbol'' token_symbol)
                     ''tokenAddress'' token_address
                 else sessionData0)
      in
      ([(''type'', JStr ''PAYMENT_COMPLETE''),
        (''sessionId'', JStr (to_string R (js_or session_id (JStr [])))),
        (''walletAddress'', JStr (to_string R (js_or wallet (JStr [])))),
        (''amount'', JStr (to_string R (js_or amount (JNum (1 / 10))))),
        (''status'', JStr ''payment_completed''),
        (''isTokenSwap'',
           JStr (if truthy (get_prop sessionData ''isTokenSwap'') then ''true'' else ''false'')),
        (''tokenSymbol'', JStr (to_string R (js_or (get_prop sessionData ''tokenSymbol'') (JStr [])))),
        (''tokenAddress'', JStr (to_string R (js_or (get_prop sessionData ''tokenAddress'') (JStr [])))),
        (''tokenAmount'', JStr (to_string R (js_or (get_prop sessionData ''tokenAmount'') (JNum 0))))],
       paymentSessions))"

text \<open>\<^verbatim>\<open>getStatusMessage(sessionData)\<close>.\<close>

definition getStatusMessage :: "runtime \<Rightarrow> obj \<Rightarrow> string" where
  "getStatusMessage R sessionData =
     (let status = get_prop sessionData ''status'' in
      if status = JStr ''created'' then ''Your payment is being processed.''
      else if status = JStr ''payment_completed'' then
        ''Payment received. Sending SOL to your wallet...''
      else if status = JStr ''sol_transferred'' then
        ''SOL successfully sent to your wallet! View the transaction on Solana Explorer: '' @
        to_string R (get_prop sessionData ''explorerLink'')
      else if status = JStr ''token_swap_completed'' then
        ''Tokens successfully swapped and sent to your wallet! View the transaction on Solana Explorer: '' @
        to_string R (get_prop sessionData ''explorerLink'')
      else if status = JStr ''error'' then
        ''There was an error: '' @ to_string R (get_prop sessionData ''error'')
      else ''Processing your transaction...'')"

text \<open>
  \<^verbatim>\<open>app.get('/api/payment-status/:sessionId')\<close>. The path parameter is a string. The
  second argument is the payment provider's answer to
  \<^verbatim>\<open>stripe.checkout.sessions.retrieve\<close>, asked only for an id the store does not hold.
\<close>

definition payment_status ::
  "runtime \<Rightarrow> string + jsval \<Rightarrow> string \<Rightarrow> store \<Rightarrow> response \<times> store" where
  "payment_status R retrieved sessionId paymentSessions =
     (case paymentSessions sessionId of
        Some sessionData \<Rightarrow>
          ((200, assign (assign sessionData
                   ''explorerLink'' (js_or (get_prop sessionData ''explorerLink'') JNull))
                   ''message'' (JStr (getStatusMessage R sessionData))),
           paymentSessions)
      | None \<Rightarrow>
          (case retrieved of
             Inl message \<Rightarrow>
               ((500, [(''error'', JStr ''Failed to retrieve payment status'')]), paymentSessions)
           | Inr session \<Rightarrow>
               if \<not> truthy session then
                 ((404, [(''error'', JStr ''Session not found'')]), paymentSessions)
               else
                 let metadata = member_of session ''metadata'' in
                 ((200, [(''id'', member_of session ''id''),
                         (''status'', member_of session ''status''),
                         (''amount'', member_of session ''amount_total''),
                         (''currency'', member_of session ''currency''),
                         (''walletAddress'',
                            js_or (member_of metadata ''walletAddress'') (JStr ''unknown'')),
                         (''solAmount'', js_or (member_of metadata ''solAmount'') (JStr ''0.1'')),
                         (''isTokenSwap'', JBool (member_of metadata ''isTokenSwap'' = JStr ''true'')),
                         (''tokenSymbol'', member_of metadata ''tokenSymbol''),
                         (''tokenAddress'', member_of metadata ''tokenAddress''),
                         (''tokenAmount'', member_of metadata ''tokenAmount''),
                         (''message'',
                            JStr ''Your payment was successful. Processing your transaction...'')]),
                  paymentSessions)))"

section \<open>Swap and deliver\<close>

text \<open>
  \<^verbatim>\<open>app.post('/api/swap-tokens')\<close>. The aggregator's quote is read through
  \<^verbatim>\<open>parseFloat(quoteData.outAmount)\<close> and \<^verbatim>\<open>quoteData.outputDecimals\<close>; the record
  \<open>quote\<close> holds these two. In \<open>swap_io\<close>, \<open>sw_quote k\<close> and \<open>sw_swap k\<close> are the
  outcomes of the fetch made when the retry counter is \<open>k\<close>: \<open>Inl\<close> when the fetch
  throws, is aborted after 30 seconds, answers with a status that is not ok, or has a body
  that does not parse. The other fields are the awaited calls of the execution block in
  order, \<open>sw_token_accounts\<close> being the two public keys and the two associated token
  addresses together. The handler's result carries the trace of what it did outside:
  fetches, waits and transactions sent.
\<close>

record quote =
  outAmount :: rat
  outputDecimals :: "nat option"

record swap_io =
  sw_quote :: "nat \<Rightarrow> string + quote"
  sw_swap :: "nat \<Rightarrow> string + unit"
  sw_deserialize :: "string + unit"
  sw_getLatestBlockhash :: "string + unit"
  sw_getRecentPrioritizationFees :: "string + fee_observation list"
  sw_sendTransaction :: "string + string"
  sw_getSignatureStatus :: "string + unit"
  sw_token_accounts :: "string + string \<times> string"
  sw_getAccountInfo :: "string + bool"
  sw_getLatestBlockhash2 :: "string + unit"
  sw_getRecentPrioritizationFees2 :: "string + fee_observation list"
  sw_sendTransaction2 :: "string + string"
  sw_getSignatureStatus2 :: "string + unit"

datatype event =
    Fetch string
  | Wait nat
  | SendSwapTransaction int
  | SendTokenTransfer bool string string int int

datatype 'a fetched = Fetched 'a | Unavailable | Skipped

text \<open>
  The two retry loops have the same body; \<open>retries\<close> is \<^verbatim>\<open>quoteRetries\<close> (or
  \<^verbatim>\<open>swapRetries\<close>). \<open>Unavailable\<close> is the \<^verbatim>\<open>return res.status(503)\<close> inside the
  loop; \<open>Skipped\<close> is leaving the loop by its condition, with the data undefined.
\<close>

function fetch_loop ::
  "string \<Rightarrow> (nat \<Rightarrow> string + 'a) \<Rightarrow> nat \<Rightarrow> nat \<Rightarrow> 'a fetched \<times> event list" where
  "fetch_loop url fetch maxRetries retries =
     (if retries < maxRetries then
        (case fetch retries of
           Inr data \<Rightarrow> (Fetched data, [Fetch url])
         | Inl message \<Rightarrow>
             if retries + 1 \<ge> maxRetries then (Unavailable, [Fetch url])
             else
               (case fetch_loop url fetch maxRetries (retries + 1) of
                  (result, events) \<Rightarrow>
                    (result,
                     Fetch url # Wait (min (1000 * 2 ^ (retries + 1)) 8000) # events)))
      else (Skipped, []))"
  by pat_completeness auto
termination
  by (relation "measure (\<lambda>(url, fetch, maxRetries, retries). maxRetries - retries)") auto

declare fetch_loop.simps [simp del]

definition maxQuoteRetries :: nat where
  "maxQuoteRetries = 3"

definition maxSwapRetries :: nat where
  "maxSwapRetries = 3"

definition jupiterQuoteUrl :: string where
  "jupiterQuoteUrl = ''https://quote-api.jup.ag/v6/quote''"

definition swapUrl :: string where
  "swapUrl = ''https://quote-api.jup.ag/v6/swap''"

text \<open>\<^verbatim>\<open>!amount || isNaN(amount) || amount <= 0\<close> fails, with the number the amount is.\<close>

definition swap_amount :: "runtime \<Rightarrow> jsval \<Rightarrow> rat option" where
  "swap_amount R amount =
     (if \<not> truthy amount then None
      else (case to_number R amount of
              None \<Rightarrow> None
            | Some x \<Rightarrow> if x \<le> 0 then None else Some x))"

text \<open>
  The execution block after both fetches: the outcome is the message of the first call
  that throws, or the two transaction ids, the recipient's token account and whether it
  had to be created. A failing account lookup is caught and counts as no account.
\<close>

definition execute_swap ::
  "swap_io \<Rightarrow> int \<Rightarrow> (string + string \<times> string \<times> string \<times> bool) \<times> event list" where
  "execute_swap io rawAmount =
     (case sw_deserialize io of Inl message \<Rightarrow> (Inl message, []) | Inr _ \<Rightarrow>
      case sw_getLatestBlockhash io of Inl message \<Rightarrow> (Inl message, []) | Inr _ \<Rightarrow>
      let priorityFee = getDynamicPriorityFee (sw_getRecentPrioritizationFees io);
          sent1 = [SendSwapTransaction priorityFee]
      in
      case sw_sendTransaction io of Inl message \<Rightarrow> (Inl message, sent1) | Inr swapTxId \<Rightarrow>
      case sw_getSignatureStatus io of Inl message \<Rightarrow> (Inl message, sent1) | Inr _ \<Rightarrow>
      case sw_token_accounts io of Inl message \<Rightarrow> (Inl message, sent1)
      | Inr (fundingTokenAccount, userTokenAccount) \<Rightarrow>
      let accountInfo = (case sw_getAccountInfo io of Inl _ \<Rightarrow> False | Inr found \<Rightarrow> found) in
      case sw_getLatestBlockhash2 io of Inl message \<Rightarrow> (Inl message, sent1) | Inr _ \<Rightarrow>
      let transferPriorityFee = getDynamicPriorityFee (sw_getRecentPrioritizationFees2 io);
          sent2 = sent1 @ [SendTokenTransfer (\<not> accountInfo) fundingTokenAccount
                             userTokenAccount rawAmount transferPriorityFee]
      in
      case sw_sendTransaction2 io of Inl message \<Rightarrow> (Inl message, sent2) | Inr transferTxId \<Rightarrow>
      case sw_getSignatureStatus2 io of Inl message \<Rightarrow> (Inl message, sent2) | Inr _ \<Rightarrow>
        (Inr (swapTxId, transferTxId, userTokenAccount, \<not> accountInfo), sent2))"

text \<open>The answer to a completed swap, and the update of the session object.\<close>

definition swap_success ::
  "runtime \<Rightarrow> jsval \<Rightarrow> jsval \<Rightarrow> jsval \<Rightarrow> rat \<Rightarrow> string \<Rightarrow> string \<Rightarrow> string \<Rightarrow> bool \<Rightarrow> response" where
  "swap_success R amount tokenSymbol toToken outputAmount swapTxId transferTxId
     userTokenAccount created =
     (200,
      [(''status'', JStr ''success''),
       (''transactions'', JArr
          [JObject
             [(''id'', JStr swapTxId),
              (''type'', JStr ''swap''),
              (''status'', JStr ''SENT''),
              (''description'', JStr (''Swapped '' @ to_string R amount @ '' SOL to '' @
                  num2str R outputAmount @ '' '' @ to_string R tokenSymbol)),
              (''explorerLink'', JStr (''https://solscan.io/tx/'' @ swapTxId))],
           JObject
             [(''id'', JStr transferTxId),
              (''type'', JStr ''transfer''),
              (''status'', JStr ''SENT''),
              (''description'', JStr (''Transferred '' @ num2str R outputAmount @ '' '' @
                  to_string R tokenSymbol @ '' to your wallet'')),
              (''explorerLink'', JStr (''https://solscan.io/tx/'' @ transferTxId)),
              (''tokenAccountCreated'', JBool created)]]),
       (''finalToken'', JObject
          [(''symbol'', tokenSymbol),
           (''mint'', toToken),
           (''amount'', JNum outputAmount),
           (''associatedTokenAccount'', JStr userTokenAccount)]),
       (''message'', JStr (''Successfully processed SOL to '' @ to_string R tokenSymbol @
           '' swap and transfer to your wallet.''))])"

definition record_swap :: "obj \<Rightarrow> string \<Rightarrow> string \<Rightarrow> rat \<Rightarrow> obj" where
  "record_swap session swapTxId transferTxId outputAmount =
     assign (assign (assign (assign session
       ''swapTxId'' (JStr swapTxId))
       ''transferTxId'' (JStr transferTxId))
       ''tokenAmount'' (JNum outputAmount))
       ''status'' (JStr ''completed'')"

definition swap_tokens ::
  "runtime \<Rightarrow> swap_io \<Rightarrow> obj \<Rightarrow> store \<Rightarrow> response \<times> store \<times> event list" where
  "swap_tokens R io body paymentSessions =
     (let walletAddress = get_prop body ''walletAddress'';
          sessionId = get_prop body ''sessionId'';
          toToken = get_prop body ''toToken'';
          amount = get_prop body ''amount''
      in
      if \<not> truthy walletAddress then
        ((400, [(''error'', JStr ''Wallet address is required'')]), paymentSessions, [])
      else if \<not> truthy toToken then
        ((400, [(''error'', JStr ''Destination token address is required'')]), paymentSessions, [])
      else
      case swap_amount R amount of
        None \<Rightarrow> ((400, [(''error'', JStr ''Valid SOL amount is required'')]), paymentSessions, [])
      | Some a \<Rightarrow>
      case fundingKeypair R of
        None \<Rightarrow>
          ((500, [(''error'', JStr ''Funding wallet not initialized. Check FUNDING_WALLET_SECRET environment variable.'')]),
           paymentSessions, [])
      | Some funding \<Rightarrow>
      let sessionInfo = find_session paymentSessions sessionId in
      if \<not> PublicKey_ok R walletAddress then
        ((400, [(''error'', JStr (''Invalid wallet address: '' @ to_string R walletAddress))]),
         paymentSessions, [])
      else
      case fetch_loop jupiterQuoteUrl (sw_quote io) maxQuoteRetries 0 of
        (Unavailable, events1) \<Rightarrow>
          ((503, [(''error'', JStr ''Jupiter API unavailable''),
                  (''details'', JStr ''Could not get a quote from Jupiter exchange after multiple attempts.'')]),
           paymentSessions, events1)
      | (Skipped, events1) \<Rightarrow>
          ((500, [(''error'', JStr ''Failed to process token swap''),
                  (''details'', JStr ''Cannot read properties of undefined'')]),
           paymentSessions, events1)
      | (Fetched quoteData, events1) \<Rightarrow>
      let decimals = (case outputDecimals quoteData of
                        None \<Rightarrow> 6
                      | Some d \<Rightarrow> if d = 0 then 6 else d);
          outputAmount = outAmount quoteData / 10 ^ decimals;
          tokenSymbol =
            js_or (case sessionInfo of None \<Rightarrow> JUndefined
                   | Some (k, session) \<Rightarrow> get_prop session ''tokenSymbol'')
                  (JStr ''Token'')
      in
      case fetch_loop swapUrl (sw_swap io) maxSwapRetries 0 of
        (Unavailable, events2) \<Rightarrow>
          ((503, [(''error'', JStr ''Jupiter API unavailable''),
                  (''details'', JStr ''Could not get a swap transaction from Jupiter exchange after multiple attempts.'')]),
           paymentSessions, events1 @ events2)
      | (Skipped, events2) \<Rightarrow>
          ((500, [(''error'', JStr ''Failed to execute swap''),
                  (''details'', JStr ''Cannot read properties of undefined'')]),
           paymentSessions, events1 @ events2)
      | (Fetched swapResponseData, events2) \<Rightarrow>
      case execute_swap io (Math_round (outputAmount * 10 ^ decimals)) of
        (Inl message, events3) \<Rightarrow>
          ((500, [(''error'', JStr ''Failed to execute swap''), (''details'', JStr message)]),
           paymentSessions, events1 @ events2 @ events3)
      | (Inr (swapTxId, transferTxId, userTokenAccount, created), events3) \<Rightarrow>
          (swap_success R amount tokenSymbol toToken outputAmount swapTxId transferTxId
             userTokenAccount created,
           (case sessionInfo of
              None \<Rightarrow> paymentSessions
            | Some (k, session) \<Rightarrow>
                paymentSessions(k \<mapsto> record_swap session swapTxId transferTxId outputAmount)),
           events1 @ events2 @ events3))"

section \<open>Calls to the endpoints\<close>

text \<open>
  A call to one of the five endpoints that read or write the store, with what the outside
  answers during it. \<open>handle\<close> is the store after the call; a handler runs from start
  to end before the next call is handled. \<open>run\<close> handles a sequence of calls.
\<close>

datatype call =
    CreateCheckoutSession create_io obj
  | PaymentSuccess obj
  | PaymentStatus "string + jsval" string
  | TransferSol transfer_io obj
  | SwapTokens swap_io obj

fun handle :: "runtime \<Rightarrow> store \<Rightarrow> call \<Rightarrow> store" where
  "handle R paymentSessions (CreateCheckoutSession io body) =
     fst (snd (create_checkout_session R io body paymentSessions))"
| "handle R paymentSessions (PaymentSuccess query) =
     snd (payment_success R query paymentSessions)"
| "handle R paymentSessions (PaymentStatus retrieved sessionId) =
     snd (payment_status R retrieved sessionId paymentSessions)"
| "handle R paymentSessions (TransferSol io body) =
     fst (snd (transfer_sol R io body paymentSessions))"
| "handle R paymentSessions (SwapTokens io body) =
     fst (snd (swap_tokens R io body paymentSessions))"

definition run :: "runtime \<Rightarrow> store \<Rightarrow> call list \<Rightarrow> store" where
  "run R paymentSessions calls = foldl (handle R) paymentSessions calls"


text \<open>\<^verbatim>\<open>paymentSessions.get(k)?.field\<close>: a field of a stored session.\<close>

definition stored :: "store \<Rightarrow> string \<Rightarrow> string \<Rightarrow> jsval" where
  "stored paymentSessions k field =
     (case paymentSessions k of None \<Rightarrow> JUndefined | Some session \<Rightarrow> get_prop session field)"


section \<open>The priority fee as the specification words it\<close>

text \<open>
  The specification's estimate: the median of the five most recent observations, times
  1.2, rounded to the nearest integer, clamped. The median of an even number of values is
  the mean of the two middle ones.
\<close>

definition median :: "int list \<Rightarrow> rat" where
  "median xs =
     (let s = sort xs; n = length s
      in if odd n then of_int (s ! (n div 2))
         else (of_int (s ! (n div 2 - 1)) + of_int (s ! (n div 2))) / 2)"

definition claimed_priority_fee :: "fee_observation list \<Rightarrow> int" where
  "claimed_priority_fee observations =
     (if observations = [] then 200000
      else
        let recent = take 5 (sort_key (\<lambda>a. - slot a) observations)
        in min (max (Math_round (median (map prioritizationFee recent) * (12 / 10))) 100000)
             1000000)"

text \<open>
  \<open>most_recent recent observations\<close>: \<open>recent\<close> is a choice of the five observations
  with the highest slots (of all of them when there are fewer). \<open>upper_median m xs\<close>:
  \<open>m\<close> is the value at index \<open>length xs div 2\<close> when \<open>xs\<close> is put in ascending order,
  which for an even number of values is the upper of the two middle ones.
\<close>

definition most_recent :: "fee_observation list \<Rightarrow> fee_observation list \<Rightarrow> bool" where
  "most_recent recent observations =
     (length recent = min 5 (length observations) \<and>
      mset recent \<subseteq># mset observations \<and>
      (\<forall>a \<in># mset observations - mset recent. \<forall>b \<in> set recent. slot a \<le> slot b))"

definition upper_median :: "int \<Rightarrow> int list \<Rightarrow> bool" where
  "upper_median m xs =
     (length (filter (\<lambda>x. x < m) xs) \<le> length xs div 2 \<and>
      length xs div 2 < length (filter (\<lambda>x. x \<le> m) xs))"

section \<open>Example data\<close>

text \<open>A configured runtime, a wallet address, a stored session and network answers.\<close>

definition example_runtime :: runtime where
  "example_runtime =
     \<lparr>str2num = (\<lambda>s. None), num2str = (\<lambda>x. ''0.1''), toFixed = (\<lambda>n x. ''0.1000''),
      PublicKey_ok = (\<lambda>v. case v of JStr s \<Rightarrow> length s = 44 | _ \<Rightarrow> False),
      fundingKeypair = Some ''FundingWa11et'',
      PRICE_USD = JNum 100, PRICE_INR = JNum 100,
      BACKEND_URL = None, FRONTEND_URL = None\<rparr>"

definition example_wallet :: string where
  "example_wallet = ''7xKXtg2CW87d97TXJSDpbD5jBkheTqA83TZRuJosgAsU''"

definition example_session :: "bool \<Rightarrow> obj" where
  "example_session swap =
     [(''id'', JStr ''session_1_a''),
      (''stripeSessionId'', JStr ''cs_1''),
      (''walletAddress'', JStr example_wallet),
      (''amount'', JNum 100),
      (''currency'', JStr ''usd''),
      (''status'', JStr ''created''),
      (''timestamp'', JStr ''2025-01-01T00:00:00.000Z''),
      (''solAmount'', JNum (1 / 10)),
      (''isTokenSwap'', JBool swap),
      (''tokenSymbol'', if swap then JStr ''USDC'' else JNull),
      (''tokenAddress'', JNull),
      (''tokenAmount'', JNull)]"

definition example_store :: "bool \<Rightarrow> store" where
  "example_store swap = Map.empty(''session_1_a'' \<mapsto> example_session swap)"

definition example_transfer_io :: "string + string \<Rightarrow> transfer_io" where
  "example_transfer_io sent =
     \<lparr>tr_getLatestBlockhash = Inr (),
      tr_getRecentPrioritizationFees = Inr [],
      tr_sendTransaction = sent,
      tr_getSignatureStatus = Inr (),
      tr_now = ''2025-01-01T00:01:00.000Z''\<rparr>"

definition example_create_io :: create_io where
  "example_create_io =
     \<lparr>cr_getCurrentSolPrice = Some \<lparr>usd = 150, inr = 12500\<rparr>,
      cr_Date_now = ''1735689600000'',
      cr_Math_random = ''k3j9x0q1z'',
      cr_toISOString = ''2025-01-01T00:00:00.000Z'',
      cr_stripe_create = Inr
        [(''id'', JStr ''cs_live_1''),
         (''url'', JStr ''https://checkout.stripe.com/c/pay/cs_live_1''),
         (''amount_total'', JNum 100),
         (''currency'', JStr ''usd'')]\<rparr>"

definition example_create_io_at :: "rat \<Rightarrow> create_io" where
  "example_create_io_at rate =
     example_create_io\<lparr>cr_getCurrentSolPrice := Some \<lparr>usd = rate, inr = 12500\<rparr>\<rparr>"

definition example_quote :: quote where
  "example_quote = \<lparr>outAmount = 14950000, outputDecimals = Some 6\<rparr>"

definition example_swap_io :: "(nat \<Rightarrow> string + quote) \<Rightarrow> (nat \<Rightarrow> string + unit) \<Rightarrow> swap_io" where
  "example_swap_io quotes swaps =
     \<lparr>sw_quote = quotes,
      sw_swap = swaps,
      sw_deserialize = Inr (),
      sw_getLatestBlockhash = Inr (),
      sw_getRecentPrioritizationFees = Inr [],
      sw_sendTransaction = Inr ''3swap'',
      sw_getSignatureStatus = Inr (),
      sw_token_accounts = Inr (''FundingTokenAccount'', ''UserTokenAccount''),
      sw_getAccountInfo = Inr False,
      sw_getLatestBlockhash2 = Inr (),
      sw_getRecentPrioritizationFees2 = Inr [],
      sw_sendTransaction2 = Inr ''4transfer'',
      sw_getSignatureStatus2 = Inr ()\<rparr>"

definition example_swap_body :: obj where
  "example_swap_body =
     [(''walletAddress'', JStr example_wallet),
      (''sessionId'', JStr ''session_1_a''),
      (''toToken'', JStr ''EPjFWdd5AufqSSqeM2qN1xzybapC8G4wEGGkZwyTDt1v''),
      (''amount'', JNum (1 / 10))]"



section \<open>Verified properties\<close>

subsection \<open>Arithmetic and objects\<close>

lemma floor_rat_numeral [simp]:
  "\<lfloor>numeral a / numeral b :: rat\<rfloor> = numeral a div numeral b"
  by (metis floor_divide_of_int_eq of_int_numeral)

lemma ceiling_rat_numeral [simp]:
  "\<lceil>numeral a / numeral b :: rat\<rceil> = - (- numeral a div numeral b)"
  by (metis ceiling_def floor_divide_of_int_eq minus_divide_left of_int_minus of_int_numeral)

lemma Math_round_numeral [simp]: "Math_round (numeral n) = numeral n"
  by (simp add: Math_round_def) linarith

lemma round_half_error:
  fixes y :: rat
  shows "\<bar>of_int \<lfloor>y + 1 / 2\<rfloor> - y\<bar> \<le> 1 / 2"
proof -
  have "of_int \<lfloor>y + 1 / 2\<rfloor> \<le> y + 1 / 2" and "y + 1 / 2 < of_int \<lfloor>y + 1 / 2\<rfloor> + 1"
    by linarith+
  then show ?thesis
    by linarith
qed

lemma pow2_pos [simp]: "0 < pow2 k"
  by (simp add: pow2_def)

lemma pow2_neq0 [simp]: "pow2 k \<noteq> 0"
  using pow2_pos [of k] by linarith

lemma pow2_nonneg [simp]: "0 \<le> pow2 k"
  by (rule less_imp_le) (rule pow2_pos)

lemma pow2_abs [simp]: "\<bar>pow2 k\<bar> = pow2 k"
  by (rule abs_of_pos) (rule pow2_pos)














lemma get_prop_assign: "get_prop (assign ob k v) k' = (if k' = k then v else get_prop ob k')"
  by (simp add: get_prop_def assign_def update_conv')

lemma find_session_string:
  "k \<noteq> [] \<Longrightarrow> find_session ps (JStr k) = (case ps k of None \<Rightarrow> None | Some s \<Rightarrow> Some (k, s))"
  by (simp add: find_session_def)

subsection \<open>Priority fee\<close>

lemma length_filter_sort: "length (filter P (sort xs)) = length (filter P xs)"
proof -
  have "mset (filter P (sort xs)) = mset (filter P xs)"
    by simp
  then show ?thesis
    by (metis size_mset)
qed

lemma sorted_rank:
  fixes s :: "int list"
  assumes "sorted s" and "k < length s"
  shows "length (filter (\<lambda>x. x < s ! k) s) \<le> k" and "k < length (filter (\<lambda>x. x \<le> s ! k) s)"
proof -
  have ge: "\<forall>x \<in> set (drop k s). s ! k \<le> x"
    using assms by (auto simp: in_set_conv_nth sorted_iff_nth_mono)
  have le: "\<forall>x \<in> set (take (Suc k) s). x \<le> s ! k"
    using assms by (auto simp: in_set_conv_nth sorted_iff_nth_mono)
  have "filter (\<lambda>x. x < s ! k) s =
        filter (\<lambda>x. x < s ! k) (take k s) @ filter (\<lambda>x. x < s ! k) (drop k s)"
    by (metis append_take_drop_id filter_append)
  moreover have "filter (\<lambda>x. x < s ! k) (drop k s) = []"
    using ge by (auto simp: filter_empty_conv)
  ultimately have "length (filter (\<lambda>x. x < s ! k) s) \<le> length (take k s)"
    by (simp del: length_take)
  then show "length (filter (\<lambda>x. x < s ! k) s) \<le> k"
    by simp
  have "filter (\<lambda>x. x \<le> s ! k) s =
        filter (\<lambda>x. x \<le> s ! k) (take (Suc k) s) @ filter (\<lambda>x. x \<le> s ! k) (drop (Suc k) s)"
    by (metis append_take_drop_id filter_append)
  moreover have "filter (\<lambda>x. x \<le> s ! k) (take (Suc k) s) = take (Suc k) s"
    using le by (auto simp: filter_id_conv)
  ultimately have "length (take (Suc k) s) \<le> length (filter (\<lambda>x. x \<le> s ! k) s)"
    by simp
  then show "k < length (filter (\<lambda>x. x \<le> s ! k) s)"
    using assms(2) by simp
qed

lemma upper_median_sort:
  assumes "xs \<noteq> []"
  shows "upper_median (sort xs ! (length xs div 2)) xs"
proof -
  have k: "length xs div 2 < length (sort xs)"
    using assms by simp
  have "sorted (sort xs)"
    by simp
  from sorted_rank [OF this k] show ?thesis
    by (simp add: upper_median_def length_filter_sort)
qed

lemma most_recent_take:
  "most_recent (take 5 (sort_key (\<lambda>a. - slot a) observations)) observations"
proof -
  let ?s = "sort_key (\<lambda>a. - slot a) observations"
  have split: "mset observations = mset (take 5 ?s) + mset (drop 5 ?s)"
    by (metis append_take_drop_id mset_append mset_sort)
  have "sorted (map (\<lambda>a. - slot a) (take 5 ?s) @ map (\<lambda>a. - slot a) (drop 5 ?s))"
    by (metis append_take_drop_id map_append sorted_sort_key)
  then have order: "\<forall>a \<in> set (drop 5 ?s). \<forall>b \<in> set (take 5 ?s). slot a \<le> slot b"
    by (auto simp: sorted_append)
  show ?thesis
    unfolding most_recent_def using order by (simp add: split min.commute)
qed

text \<open>
  Claim C6, as amended. The estimate is total. When sampling throws or gives no
  observation it is 200000. Otherwise it is the upper median of the fees of the five most
  recent observations by slot (of all when fewer), times 1.2, rounded up to the next
  integer, clamped to the interval from 100000 to 1000000; the observations with fees
  50000, 100000, 150000, 200000, 9000000 give 180000.
\<close>

theorem priority_fee_estimate:
  "getDynamicPriorityFee (Inl error) = 200000 \<and>
   getDynamicPriorityFee (Inr []) = 200000 \<and>
   (observations \<noteq> [] \<longrightarrow>
      (\<exists>recent m.
         most_recent recent observations \<and>
         upper_median m (map prioritizationFee recent) \<and>
         getDynamicPriorityFee (Inr observations) =
           min (max \<lceil>of_int m * (12 / 10 :: rat)\<rceil> 100000) 1000000)) \<and>
   getDynamicPriorityFee (Inr
     [\<lparr>slot = 1, prioritizationFee = 50000\<rparr>, \<lparr>slot = 2, prioritizationFee = 100000\<rparr>,
      \<lparr>slot = 3, prioritizationFee = 150000\<rparr>, \<lparr>slot = 4, prioritizationFee = 200000\<rparr>,
      \<lparr>slot = 5, prioritizationFee = 9000000\<rparr>]) = 180000"
proof (intro conjI impI)
  show "getDynamicPriorityFee (Inl error) = 200000"
    by (simp add: getDynamicPriorityFee_def)
  show "getDynamicPriorityFee (Inr []) = 200000"
    by (simp add: getDynamicPriorityFee_def)
  show "getDynamicPriorityFee (Inr
     [\<lparr>slot = 1, prioritizationFee = 50000\<rparr>, \<lparr>slot = 2, prioritizationFee = 100000\<rparr>,
      \<lparr>slot = 3, prioritizationFee = 150000\<rparr>, \<lparr>slot = 4, prioritizationFee = 200000\<rparr>,
      \<lparr>slot = 5, prioritizationFee = 9000000\<rparr>]) = 180000"
    by (simp add: getDynamicPriorityFee_def Math_ceil_def)
next
  assume ne: "observations \<noteq> []"
  let ?recent = "take 5 (sort_key (\<lambda>a. - slot a) observations)"
  let ?fees = "map prioritizationFee ?recent"
  have "?fees \<noteq> []"
    using ne by (cases observations) auto
  then have "upper_median (sort ?fees ! (length ?fees div 2)) ?fees"
    by (rule upper_median_sort)
  moreover have "getDynamicPriorityFee (Inr observations) =
      min (max \<lceil>of_int (sort ?fees ! (length ?fees div 2)) * (12 / 10 :: rat)\<rceil> 100000) 1000000"
    using ne by (simp add: getDynamicPriorityFee_def Math_ceil_def Let_def)
  ultimately show "\<exists>recent m.
         most_recent recent observations \<and>
         upper_median m (map prioritizationFee recent) \<and>
         getDynamicPriorityFee (Inr observations) =
           min (max \<lceil>of_int m * (12 / 10 :: rat)\<rceil> 100000) 1000000"
    using most_recent_take by blast
qed

theorem priority_fee_estimate_witness:
  "\<exists>recent m.
     most_recent recent
       [\<lparr>slot = 7, prioritizationFee = 120000\<rparr>, \<lparr>slot = 9, prioritizationFee = 100001\<rparr>] \<and>
     upper_median m (map prioritizationFee recent) \<and>
     getDynamicPriorityFee (Inr
       [\<lparr>slot = 7, prioritizationFee = 120000\<rparr>, \<lparr>slot = 9, prioritizationFee = 100001\<rparr>]) =
       min (max \<lceil>of_int m * (12 / 10 :: rat)\<rceil> 100000) 1000000"
  using priority_fee_estimate [of undefined
      "[\<lparr>slot = 7, prioritizationFee = 120000\<rparr>, \<lparr>slot = 9, prioritizationFee = 100001\<rparr>]"]
  by simp

text \<open>
  Claim C6 as stated, with rounding to the nearest integer, fails for a single observation
  with fee 100001: the code gives 120002, the stated formula 120001. With the median of
  two values as their mean it fails for the fees 100000 and 200000 too: the code gives
  240000, the stated formula 180000.
\<close>

theorem priority_fee_rounding_counterexample:
  "getDynamicPriorityFee (Inr [\<lparr>slot = 1, prioritizationFee = 100001\<rparr>]) \<noteq>
   claimed_priority_fee [\<lparr>slot = 1, prioritizationFee = 100001\<rparr>] \<and>
   getDynamicPriorityFee (Inr
     [\<lparr>slot = 1, prioritizationFee = 100000\<rparr>, \<lparr>slot = 2, prioritizationFee = 200000\<rparr>]) \<noteq>
   claimed_priority_fee
     [\<lparr>slot = 1, prioritizationFee = 100000\<rparr>, \<lparr>slot = 2, prioritizationFee = 200000\<rparr>]"
  by (simp add: getDynamicPriorityFee_def claimed_priority_fee_def median_def
      Math_ceil_def Math_round_def)

subsection \<open>Direct SOL transfer\<close>

lemma transfer_sol_valid:
  assumes "truthy (get_prop body ''walletAddress'')"
    and "fundingKeypair R = Some funding"
    and "PublicKey_ok R (get_prop body ''walletAddress'')"
    and "with_default body ''amount'' (JNum SOL_AMOUNT) = JNum a" and "0 < a"
  shows "transfer_sol R io body ps =
     (case try_broadcast io of
        Inl message \<Rightarrow>
          (transfer_failed R (with_default body ''retryCount'' (JNum 0)) message, ps,
           submitted io \<lparr>fromPubkey = funding, toPubkey = get_prop body ''walletAddress'',
             lamports = Math_round (a * 1000000000),
             priorityFee = getDynamicPriorityFee (tr_getRecentPrioritizationFees io)\<rparr>)
      | Inr signature \<Rightarrow>
          (transfer_success R signature (''https://solscan.io/tx/'' @ signature) (JNum a),
           (case find_session ps (get_prop body ''sessionId'') of
                   None \<Rightarrow> ps
                 | Some (k, session) \<Rightarrow>
                     ps(k \<mapsto> record_transfer session signature (''https://solscan.io/tx/'' @ signature) (tr_now io) (JNum a))),
           submitted io \<lparr>fromPubkey = funding, toPubkey = get_prop body ''walletAddress'',
             lamports = Math_round (a * 1000000000),
             priorityFee = getDynamicPriorityFee (tr_getRecentPrioritizationFees io)\<rparr>))"
  using assms
  by (simp add: transfer_sol_def checked_amount_def Let_def
      split: sum.splits option.splits prod.splits)

lemma record_transfer_fields:
  "get_prop (record_transfer session signature explorerLink now amount) ''status'' =
     JStr (if truthy (get_prop session ''isTokenSwap'') then ''sol_received'' else ''sol_transferred'')"
  "get_prop (record_transfer session signature explorerLink now amount)
     (if truthy (get_prop session ''isTokenSwap'') then ''solSignature'' else ''signature'') =
     JStr signature"
  "get_prop (record_transfer session signature explorerLink now amount)
     (if truthy (get_prop session ''isTokenSwap'') then ''solExplorerLink'' else ''explorerLink'') =
     JStr explorerLink"
  "get_prop (record_transfer session signature explorerLink now amount) ''transferTimestamp'' =
     JStr now"
  "get_prop (record_transfer session signature explorerLink now amount) ''transferredSolAmount'' =
     amount"
  by (simp_all add: record_transfer_def get_prop_assign Let_def)

lemma example_transfer_request:
  "truthy (get_prop [(''walletAddress'', JStr example_wallet), (''retryCount'', JNum 2)] ''walletAddress'')"
  "fundingKeypair example_runtime = Some ''FundingWa11et''"
  "PublicKey_ok example_runtime
     (get_prop [(''walletAddress'', JStr example_wallet), (''retryCount'', JNum 2)] ''walletAddress'')"
  "with_default [(''walletAddress'', JStr example_wallet), (''retryCount'', JNum 2)] ''amount''
     (JNum SOL_AMOUNT) = JNum (1 / 10)"
  "with_default [(''walletAddress'', JStr example_wallet), (''retryCount'', JNum 2)] ''retryCount''
     (JNum 0) = JNum 2"
  by (simp_all add: get_prop_def with_default_def example_runtime_def example_wallet_def
      SOL_AMOUNT_def)

lemma example_messages:
  "retryable_message ''TransactionExpiredBlockheightExceededError: expired''"
  "\<not> retryable_message ''insufficient funds''"
  by code_simp+

lemma example_transfer_ok:
  "try_broadcast (example_transfer_io (Inr sg)) = Inr sg"
  by (simp add: try_broadcast_def example_transfer_io_def)

lemma example_session_request:
  "truthy (get_prop [(''walletAddress'', JStr example_wallet), (''sessionId'', JStr ''session_1_a'')]
     ''walletAddress'')"
  "PublicKey_ok example_runtime
     (get_prop [(''walletAddress'', JStr example_wallet), (''sessionId'', JStr ''session_1_a'')]
        ''walletAddress'')"
  "with_default [(''walletAddress'', JStr example_wallet), (''sessionId'', JStr ''session_1_a'')]
     ''amount'' (JNum SOL_AMOUNT) = JNum (1 / 10)"
  "get_prop [(''walletAddress'', JStr example_wallet), (''sessionId'', JStr ''session_1_a'')]
     ''sessionId'' = JStr ''session_1_a''"
  "get_prop [(''walletAddress'', JStr example_wallet), (''sessionId'', JStr ''session_1_a'')]
     ''amount'' = JUndefined"
  by (simp_all add: get_prop_def with_default_def example_runtime_def example_wallet_def
      SOL_AMOUNT_def)

text \<open>
  Claim C4. When the broadcast step of a transfer fails (the request having passed
  validation): if the error message is of the expiry or timeout class and the supplied
  retry count is below 3, the answer is an error with \<^verbatim>\<open>retryScheduled\<close> true and
  the retry count plus one; for any other error, or a count of 3 or more, the answer is
  an error that carries the underlying message and no \<^verbatim>\<open>retryScheduled\<close> flag. The
  store is not changed.
\<close>

theorem transfer_failure_policy:
  assumes "truthy (get_prop body ''walletAddress'')"
    and "fundingKeypair R = Some funding"
    and "PublicKey_ok R (get_prop body ''walletAddress'')"
    and "with_default body ''amount'' (JNum SOL_AMOUNT) = JNum a" and "0 < a"
    and "with_default body ''retryCount'' (JNum 0) = JNum n"
    and "try_broadcast io = Inl message"
  shows "\<exists>json. fst (transfer_sol R io body ps) = (500, json) \<and>
           fst (snd (transfer_sol R io body ps)) = ps \<and>
           get_prop json ''status'' = JStr ''error'' \<and>
           (if retryable_message message \<and> n < 3
            then get_prop json ''retryScheduled'' = JBool True \<and>
                 get_prop json ''retryCount'' = JNum (n + 1)
            else get_prop json ''error'' = JStr (''Transaction failed: '' @ message) \<and>
                 get_prop json ''details'' = JStr message \<and>
                 map_of json ''retryScheduled'' = None)"
  using assms(6,7)
  by (simp add: transfer_sol_valid [OF assms(1-5)] transfer_failed_def js_less_def get_prop_def)

theorem transfer_failure_policy_witness:
  "(\<exists>json. fst (transfer_sol example_runtime
          (example_transfer_io (Inl ''TransactionExpiredBlockheightExceededError: expired''))
          [(''walletAddress'', JStr example_wallet), (''retryCount'', JNum 2)]
          (example_store False)) = (500, json) \<and>
       get_prop json ''retryScheduled'' = JBool True \<and>
       get_prop json ''retryCount'' = JNum 3) \<and>
   (\<exists>json. fst (transfer_sol example_runtime
          (example_transfer_io (Inl ''insufficient funds''))
          [(''walletAddress'', JStr example_wallet), (''retryCount'', JNum 2)]
          (example_store False)) = (500, json) \<and>
       get_prop json ''error'' = JStr ''Transaction failed: insufficient funds'' \<and>
       map_of json ''retryScheduled'' = None)"
proof -
  have t1: "try_broadcast (example_transfer_io (Inl m)) = Inl m" for m
    by (simp add: try_broadcast_def example_transfer_io_def)
  show ?thesis
    using transfer_failure_policy [OF example_transfer_request(1-3) _ _ example_transfer_request(5) t1,
        of "1 / 10" "''TransactionExpiredBlockheightExceededError: expired''" "example_store False"]
      transfer_failure_policy [OF example_transfer_request(1-3) _ _ example_transfer_request(5) t1,
        of "1 / 10" "''insufficient funds''" "example_store False"]
    by (simp add: example_transfer_request(4) example_messages) blast
qed



text \<open>
  Claim C10. For a transfer request without an \<^verbatim>\<open>amount\<close> field the amount is 0.1 SOL
  throughout: the validation of the amount passes (the answer is never a 400), the
  transaction handed to the network carries 100000000 lamports, and on success the answer's
  amount and the session's \<^verbatim>\<open>transferredSolAmount\<close> are 0.1.
\<close>

theorem default_transfer_amount:
  assumes "get_prop body ''amount'' = JUndefined"
    and "truthy (get_prop body ''walletAddress'')"
    and "fundingKeypair R = Some funding"
    and "PublicKey_ok R (get_prop body ''walletAddress'')"
  shows "\<exists>code json paymentSessions1.
           transfer_sol R io body paymentSessions =
             ((code, json), paymentSessions1,
              submitted io \<lparr>fromPubkey = funding, toPubkey = get_prop body ''walletAddress'',
                lamports = 100000000,
                priorityFee = getDynamicPriorityFee (tr_getRecentPrioritizationFees io)\<rparr>) \<and>
           code \<noteq> 400 \<and>
           (\<forall>signature. try_broadcast io = Inr signature \<longrightarrow>
              code = 200 \<and> get_prop json ''amount'' = JNum (1 / 10) \<and>
              (\<forall>k session. find_session paymentSessions (get_prop body ''sessionId'') =
                   Some (k, session) \<longrightarrow>
                 stored paymentSessions1 k ''transferredSolAmount'' = JNum (1 / 10)))"
proof -
  have amount: "with_default body ''amount'' (JNum SOL_AMOUNT) = JNum (1 / 10)"
    using assms(1) by (simp add: with_default_def SOL_AMOUNT_def)
  have lamports: "Math_round 100000000 = 100000000"
    by (simp add: Math_round_def)
  show ?thesis
  proof (cases "try_broadcast io")
    case (Inl message)
    then show ?thesis
      by (simp add: transfer_sol_valid [OF assms(2-4) amount] lamports transfer_failed_def)
  next
    case (Inr signature)
    then show ?thesis
      by (simp add: transfer_sol_valid [OF assms(2-4) amount] lamports stored_def
          record_transfer_fields transfer_success_def get_prop_def [of "_ # _"]
          split: option.splits)
  qed
qed

theorem default_transfer_amount_witness:
  "\<exists>json paymentSessions1.
     transfer_sol example_runtime (example_transfer_io (Inr ''5sig''))
       [(''walletAddress'', JStr example_wallet), (''sessionId'', JStr ''session_1_a'')]
       (example_store False) =
       ((200, json), paymentSessions1,
        [\<lparr>fromPubkey = ''FundingWa11et'', toPubkey = JStr example_wallet,
          lamports = 100000000, priorityFee = 200000\<rparr>]) \<and>
     get_prop json ''amount'' = JNum (1 / 10) \<and>
     stored paymentSessions1 ''session_1_a'' ''transferredSolAmount'' = JNum (1 / 10)"
proof -
  have s: "find_session (example_store False) (JStr ''session_1_a'') =
             Some (''session_1_a'', example_session False)"
    by (simp add: example_store_def find_session_def)
  have f: "getDynamicPriorityFee (tr_getRecentPrioritizationFees (example_transfer_io x)) = 200000"
    for x by (simp add: example_transfer_io_def getDynamicPriorityFee_def)
  have sub: "submitted (example_transfer_io x) t = [t]" for x t
    by (simp add: submitted_def example_transfer_io_def)
  have w: "get_prop [(''walletAddress'', JStr example_wallet), (''sessionId'', JStr ''session_1_a'')]
     ''walletAddress'' = JStr example_wallet"
    by (simp add: get_prop_def)
  show ?thesis
    using default_transfer_amount [OF example_session_request(5,1) example_transfer_request(2)
        example_session_request(2), of "example_transfer_io (Inr ''5sig'')" "example_store False"]
    by (simp add: example_transfer_ok example_session_request(4) s f sub w)
qed

subsection \<open>Checkout session creation\<close>

lemma checked_amount_Some: "checked_amount v = Some a \<longleftrightarrow> v = JNum a \<and> 0 < a"
  by (auto simp: checked_amount_def split: jsval.splits)

lemma charged_amount_request [simp]:
  "charged_amount (checkout_request R body currency amount sol sid b f) = JNum amount"
  by (simp add: charged_amount_def checkout_request_def Let_def get_prop_def)

lemma create_checkout_session_200:
  assumes "create_checkout_session R io body ps = ((200, json), ps', reqs)"
  shows "\<exists>solPrice a sol0 session currency b f.
    cr_getCurrentSolPrice io = Some solPrice \<and>
    resolve_amounts (if get_prop body ''country'' = JStr ''IN'' then PRICE_INR R else PRICE_USD R)
      (selected_rate solPrice (get_prop body ''country''))
      (get_prop body ''solAmount'') (get_prop body ''dollarAmount'') = (JNum a, sol0) \<and>
    0 < a \<and>
    cr_stripe_create io = Inr session \<and>
    get_prop json ''solAmount'' = JNum (toFixed8 sol0) \<and>
    get_prop json ''fiatAmount'' = JNum (double_of (a / 100)) \<and>
    get_prop json ''isTokenSwap'' = JBool (truthy (get_prop body ''tokenSymbol'')) \<and>
    get_prop json ''sessionId'' = JStr (uniqueSessionId io) \<and>
    stored ps' (uniqueSessionId io) ''solAmount'' = JNum (toFixed8 sol0) \<and>
    stored ps' (uniqueSessionId io) ''isTokenSwap'' = JBool (truthy (get_prop body ''tokenSymbol'')) \<and>
    stored ps' (uniqueSessionId io) ''status'' = JStr ''created'' \<and>
    (\<forall>k. k \<noteq> uniqueSessionId io \<longrightarrow> ps' k = ps k) \<and>
    reqs = [checkout_request R body currency a (toFixed8 sol0) (uniqueSessionId io) b f]"
  using assms unfolding create_checkout_session_def selected_rate_def
  by (auto simp: Let_def stored_def get_prop_def [of "_ # _"] checked_amount_Some
      create_success_def new_session_def
      split: if_splits option.splits sum.splits prod.splits)

lemma create_checkout_session_amounts:
  assumes "create_checkout_session R io body ps = ((200, json), ps', reqs)"
    and "cr_getCurrentSolPrice io = Some solPrice"
    and "resolve_amounts
           (if get_prop body ''country'' = JStr ''IN'' then PRICE_INR R else PRICE_USD R)
           (selected_rate solPrice (get_prop body ''country''))
           (get_prop body ''solAmount'') (get_prop body ''dollarAmount'') = (amount, sol0)"
  shows "stored ps' (uniqueSessionId io) ''solAmount'' = JNum (toFixed8 sol0)"
    and "get_prop json ''solAmount'' = JNum (toFixed8 sol0)"
    and "map charged_amount reqs = [amount]"
    and "get_prop json ''fiatAmount'' = JNum (double_of (number_of amount / 100))"
    and "0 < number_of amount"
  using create_checkout_session_200 [OF assms(1)] assms(2,3) by auto

lemma env_or_default [simp]: "d \<noteq> [] \<Longrightarrow> env_or v d \<noteq> []"
  by (simp add: env_or_def split: option.splits)

lemma create_checkout_session_succeeds:
  assumes "get_prop body ''walletAddress'' = JStr w" and "w \<noteq> []"
    and "\<not> truthy (get_prop body ''email'')"
    and "\<not> truthy (get_prop body ''country'')"
    and "cr_getCurrentSolPrice io = Some solPrice"
    and "resolve_amounts (PRICE_USD R) (usd solPrice)
           (get_prop body ''solAmount'') (get_prop body ''dollarAmount'') = (JNum a, sol0)"
    and "0 < a"
    and "cr_stripe_create io = Inr session"
  shows "\<exists>json ps' reqs. create_checkout_session R io body ps = ((200, json), ps', reqs)"
proof -
  have "get_prop body ''country'' \<noteq> JStr ''IN''"
    using assms(4) by auto
  then show ?thesis
    using assms
    by (simp add: create_checkout_session_def Let_def is_string_def bad_country_def
        checked_amount_def create_success_def)
qed

lemma example_create_at_succeeds:
  assumes "get_prop body ''walletAddress'' = JStr example_wallet"
    and "\<not> truthy (get_prop body ''email'')"
    and "\<not> truthy (get_prop body ''country'')"
    and "resolve_amounts (JNum 100) rate
           (get_prop body ''solAmount'') (get_prop body ''dollarAmount'') = (JNum a, sol0)"
    and "0 < a"
  shows "\<exists>json ps' reqs.
           create_checkout_session example_runtime (example_create_io_at rate) body ps =
             ((200, json), ps', reqs)"
proof (rule create_checkout_session_succeeds [OF assms(1) _ assms(2,3)])
  show "example_wallet \<noteq> []"
    by (simp add: example_wallet_def)
  show "cr_getCurrentSolPrice (example_create_io_at rate) = Some \<lparr>usd = rate, inr = 12500\<rparr>"
    by (simp add: example_create_io_at_def)
  show "resolve_amounts (PRICE_USD example_runtime) (usd \<lparr>usd = rate, inr = 12500\<rparr>)
          (get_prop body ''solAmount'') (get_prop body ''dollarAmount'') = (JNum a, sol0)"
    using assms(4) by (simp add: example_runtime_def)
  show "0 < a"
    by (rule assms(5))
  show "cr_stripe_create (example_create_io_at rate) = Inr
        [(''id'', JStr ''cs_live_1''),
         (''url'', JStr ''https://checkout.stripe.com/c/pay/cs_live_1''),
         (''amount_total'', JNum 100),
         (''currency'', JStr ''usd'')]"
    by (simp add: example_create_io_at_def example_create_io_def)
qed

lemma example_create_io_150: "example_create_io_at 150 = example_create_io"
  by (simp add: example_create_io_at_def example_create_io_def)

lemma example_create_succeeds:
  assumes "get_prop body ''walletAddress'' = JStr example_wallet"
    and "\<not> truthy (get_prop body ''email'')"
    and "\<not> truthy (get_prop body ''country'')"
    and "resolve_amounts (JNum 100) 150
           (get_prop body ''solAmount'') (get_prop body ''dollarAmount'') = (JNum a, sol0)"
    and "0 < a"
  shows "\<exists>json ps' reqs.
           create_checkout_session example_runtime example_create_io body ps =
             ((200, json), ps', reqs)"
  using example_create_at_succeeds [OF assms] by (simp only: example_create_io_150)

lemma example_rate_at:
  "cr_getCurrentSolPrice (example_create_io_at rate) = Some \<lparr>usd = rate, inr = 12500\<rparr>"
  "selected_rate \<lparr>usd = rate, inr = 12500\<rparr> JUndefined = rate"
  "uniqueSessionId (example_create_io_at rate) = uniqueSessionId example_create_io"
  by (simp_all add: example_create_io_at_def selected_rate_def uniqueSessionId_def)


lemma example_default_amounts:
  "resolve_amounts (JNum 100) 150 JUndefined JUndefined =
     (JNum 100, double_of (double_of (100 / 100) / 150))"
  by (simp add: resolve_amounts_def positive_number_def)








text \<open>
  Claim C2 as stated fails where the double product falls on the other side of a half
  than the exact product: 2.5 SOL at the rate 102.81 (the double nearest to it, which is
  above it) is charged 25702, while the exact product is above 25702.5.
\<close>

theorem sol_amount_product_counterexample:
  "map charged_amount (snd (snd (create_checkout_session example_runtime
       (example_create_io_at (double_of (10281 / 100)))
       [(''walletAddress'', JStr example_wallet), (''solAmount'', JNum (5 / 2))] Map.empty))) =
     [JNum 25702] \<and>
   25702 + 1 / 2 < 5 / 2 * double_of (10281 / 100) * 100"
proof -
  define r where "r = double_of (10281 / 100)"
  let ?body = "[(''walletAddress'', JStr example_wallet), (''solAmount'', JNum (5 / 2))]"
  have v: "r = 1808652647226409 / 17592186044416"
    unfolding r_def by code_simp
  have c: "resolve_amounts (JNum 100) r (JNum (5 / 2)) JUndefined = (JNum 25702, 5 / 2)"
    "25702 + 1 / 2 < 5 / 2 * r * 100"
    unfolding v by code_simp+
  have g: "get_prop ?body ''walletAddress'' = JStr example_wallet"
    "\<not> truthy (get_prop ?body ''email'')" "\<not> truthy (get_prop ?body ''country'')"
    "get_prop ?body ''country'' \<noteq> JStr ''IN''"
    by (simp_all add: get_prop_def)
  have res: "resolve_amounts (JNum 100) r (get_prop ?body ''solAmount'')
             (get_prop ?body ''dollarAmount'') = (JNum 25702, 5 / 2)"
    using c(1) by (simp add: get_prop_def)
  obtain json ps' reqs where run:
    "create_checkout_session example_runtime (example_create_io_at r) ?body Map.empty =
       ((200, json), ps', reqs)"
    using example_create_at_succeeds [OF g(1,2,3) res, where ps = Map.empty] by simp blast
  have "map charged_amount reqs = [JNum 25702]"
    using create_checkout_session_amounts(3) [OF run example_rate_at(1), of "JNum 25702" "5 / 2"]
      res g(4)
    by (simp add: selected_rate_def example_runtime_def)
  then show ?thesis
    using c(2) by (simp add: run r_def [symmetric])
qed




text \<open>
  Claim C9, as amended. In every successful call the stored and the returned
  \<^verbatim>\<open>isTokenSwap\<close> are true exactly when the request's \<^verbatim>\<open>tokenSymbol\<close> is truthy; the
  token address is not consulted.
\<close>

theorem token_swap_flag:
  assumes "create_checkout_session R io body paymentSessions =
             ((200, json), paymentSessions1, requests)"
  shows "stored paymentSessions1 (uniqueSessionId io) ''isTokenSwap'' =
           JBool (truthy (get_prop body ''tokenSymbol'')) \<and>
         get_prop json ''isTokenSwap'' = JBool (truthy (get_prop body ''tokenSymbol''))"
  using create_checkout_session_200 [OF assms] by auto

theorem token_swap_flag_witness:
  "\<exists>json paymentSessions1 requests.
     create_checkout_session example_runtime example_create_io
       [(''walletAddress'', JStr example_wallet), (''tokenAddress'', JStr ''EPjFWdd5Aufq'')]
       Map.empty = ((200, json), paymentSessions1, requests) \<and>
     stored paymentSessions1 (uniqueSessionId example_create_io) ''isTokenSwap'' = JBool False"
proof -
  let ?body = "[(''walletAddress'', JStr example_wallet), (''tokenAddress'', JStr ''EPjFWdd5Aufq'')]"
  have g: "get_prop ?body ''walletAddress'' = JStr example_wallet"
    "\<not> truthy (get_prop ?body ''email'')" "\<not> truthy (get_prop ?body ''country'')"
    "\<not> truthy (get_prop ?body ''tokenSymbol'')"
    by (simp_all add: get_prop_def)
  have r: "resolve_amounts (JNum 100) 150 (get_prop ?body ''solAmount'')
             (get_prop ?body ''dollarAmount'') =
               (JNum 100, double_of (double_of (100 / 100) / 150))"
    by (simp add: resolve_amounts_def positive_number_def get_prop_def)
  obtain json ps' reqs where run:
    "create_checkout_session example_runtime example_create_io ?body Map.empty =
       ((200, json), ps', reqs)"
    using example_create_succeeds [OF g(1,2,3) r, where ps = Map.empty] by simp blast
  from token_swap_flag [OF run] run show ?thesis
    by (simp add: g(4))
qed

text \<open>
  Claim C9 as stated fails for a request with a token symbol and no token address: the
  stored \<^verbatim>\<open>isTokenSwap\<close> is true.
\<close>

theorem token_swap_flag_counterexample:
  "stored (fst (snd (create_checkout_session example_runtime example_create_io
       [(''walletAddress'', JStr example_wallet), (''tokenSymbol'', JStr ''USDC'')] Map.empty)))
     (uniqueSessionId example_create_io) ''isTokenSwap'' = JBool True \<and>
   get_prop [(''walletAddress'', JStr example_wallet), (''tokenSymbol'', JStr ''USDC'')]
     ''tokenAddress'' = JUndefined"
proof -
  let ?body = "[(''walletAddress'', JStr example_wallet), (''tokenSymbol'', JStr ''USDC'')]"
  have g: "get_prop ?body ''walletAddress'' = JStr example_wallet"
    "\<not> truthy (get_prop ?body ''email'')" "\<not> truthy (get_prop ?body ''country'')"
    "truthy (get_prop ?body ''tokenSymbol'')" "get_prop ?body ''tokenAddress'' = JUndefined"
    by (simp_all add: get_prop_def)
  have r: "resolve_amounts (JNum 100) 150 (get_prop ?body ''solAmount'')
             (get_prop ?body ''dollarAmount'') =
               (JNum 100, double_of (double_of (100 / 100) / 150))"
    by (simp add: resolve_amounts_def positive_number_def get_prop_def)
  obtain json ps' reqs where run:
    "create_checkout_session example_runtime example_create_io ?body Map.empty =
       ((200, json), ps', reqs)"
    using example_create_succeeds [OF g(1,2,3) r, where ps = Map.empty] by simp blast
  from create_checkout_session_200 [OF run]
  have "stored ps' (uniqueSessionId example_create_io) ''isTokenSwap'' = JBool True"
    using g(4) by auto
  then show ?thesis
    by (simp add: run g(5))
qed

subsection \<open>Payment success\<close>

text \<open>
  Claim C8, as amended. A payment-success request whose \<^verbatim>\<open>session_id\<close> is in the store
  leaves the store as it is, so the stored status stays what it was; the status
  \<^verbatim>\<open>payment_completed\<close> is that of the message posted to the opener window, which takes
  \<^verbatim>\<open>isTokenSwap\<close> from the stored session.
\<close>

theorem payment_success_leaves_store:
  assumes "get_prop query ''session_id'' = JStr k" and "k \<noteq> []"
    and "paymentSessions k = Some session"
  shows "snd (payment_success R query paymentSessions) = paymentSessions \<and>
         stored (snd (payment_success R query paymentSessions)) k ''status'' =
           get_prop session ''status'' \<and>
         get_prop (fst (payment_success R query paymentSessions)) ''status'' =
           JStr ''payment_completed'' \<and>
         get_prop (fst (payment_success R query paymentSessions)) ''isTokenSwap'' =
           JStr (if truthy (get_prop session ''isTokenSwap'') then ''true'' else ''false'')"
  using assms
  by (simp add: payment_success_def Let_def find_session_string stored_def get_prop_assign
      get_prop_def [of "_ # _"])

theorem payment_success_leaves_store_witness:
  "snd (payment_success example_runtime [(''session_id'', JStr ''session_1_a'')]
          (example_store True)) = example_store True \<and>
   get_prop (fst (payment_success example_runtime [(''session_id'', JStr ''session_1_a'')]
          (example_store True))) ''isTokenSwap'' = JStr ''true''"
proof -
  have s: "example_store True ''session_1_a'' = Some (example_session True)"
    by (simp add: example_store_def)
  have q: "get_prop [(''session_id'', JStr ''session_1_a'')] ''session_id'' = JStr ''session_1_a''"
    by (simp add: get_prop_def)
  have t: "truthy (get_prop (example_session True) ''isTokenSwap'')"
    by (simp add: example_session_def get_prop_def)
  from payment_success_leaves_store [where R = example_runtime
      and query = "[(''session_id'', JStr ''session_1_a'')]" and k = "''session_1_a''"
      and paymentSessions = "example_store True" and session = "example_session True"]
  show ?thesis
    by (simp add: s q t)
qed

text \<open>
  Claim C8 as stated fails for a stored session with status \<^verbatim>\<open>created\<close>: after the
  payment-success request its stored status is not \<^verbatim>\<open>payment_completed\<close>.
\<close>

theorem payment_success_status_counterexample:
  "stored (snd (payment_success example_runtime [(''session_id'', JStr ''session_1_a'')]
             (example_store False))) ''session_1_a'' ''status'' \<noteq> JStr ''payment_completed''"
  by (simp add: payment_success_def Let_def stored_def example_store_def example_session_def
      get_prop_def)

subsection \<open>Swap and deliver\<close>

lemma fetch_loop_all_fail:
  assumes "\<And>k. isl (fetch k)"
  shows "fetch_loop url fetch 3 0 =
           (Unavailable, [Fetch url, Wait 2000, Fetch url, Wait 4000, Fetch url])"
proof -
  have f: "\<exists>m. fetch k = Inl m" for k
    using assms [of k] by (cases "fetch k") auto
  have s2: "fetch_loop url fetch 3 (Suc (Suc 0)) = (Unavailable, [Fetch url])"
    using f [of "Suc (Suc 0)"] by (subst fetch_loop.simps) auto
  have s1: "fetch_loop url fetch 3 (Suc 0) = (Unavailable, [Fetch url, Wait 4000, Fetch url])"
    using f [of "Suc 0"] by (subst fetch_loop.simps) (auto simp: s2)
  show ?thesis
    using f [of 0] by (subst fetch_loop.simps) (auto simp: s1)
qed

lemma swap_tokens_quote_unavailable:
  assumes "truthy (get_prop body ''walletAddress'')"
    and "truthy (get_prop body ''toToken'')"
    and "swap_amount R (get_prop body ''amount'') = Some a"
    and "fundingKeypair R = Some funding"
    and "PublicKey_ok R (get_prop body ''walletAddress'')"
    and "fetch_loop jupiterQuoteUrl (sw_quote io) maxQuoteRetries 0 = (Unavailable, events1)"
  shows "swap_tokens R io body paymentSessions =
          ((503, [(''error'', JStr ''Jupiter API unavailable''),
                  (''details'', JStr ''Could not get a quote from Jupiter exchange after multiple attempts.'')]),
           paymentSessions, events1)"
  using assms by (simp add: swap_tokens_def Let_def)

lemma swap_tokens_swap_unavailable:
  assumes "truthy (get_prop body ''walletAddress'')"
    and "truthy (get_prop body ''toToken'')"
    and "swap_amount R (get_prop body ''amount'') = Some a"
    and "fundingKeypair R = Some funding"
    and "PublicKey_ok R (get_prop body ''walletAddress'')"
    and "fetch_loop jupiterQuoteUrl (sw_quote io) maxQuoteRetries 0 = (Fetched quoteData, events1)"
    and "fetch_loop swapUrl (sw_swap io) maxSwapRetries 0 = (Unavailable, events2)"
  shows "swap_tokens R io body paymentSessions =
          ((503, [(''error'', JStr ''Jupiter API unavailable''),
                  (''details'', JStr ''Could not get a swap transaction from Jupiter exchange after multiple attempts.'')]),
           paymentSessions, events1 @ events2)"
  using assms by (simp add: swap_tokens_def Let_def)

lemma example_swap_request:
  "truthy (get_prop example_swap_body ''walletAddress'')"
  "truthy (get_prop example_swap_body ''toToken'')"
  "swap_amount example_runtime (get_prop example_swap_body ''amount'') = Some (1 / 10)"
  "PublicKey_ok example_runtime (get_prop example_swap_body ''walletAddress'')"
  by (simp_all add: example_swap_body_def get_prop_def swap_amount_def example_runtime_def
      example_wallet_def)

text \<open>
  Claim C5. For a swap request that passed validation: when every quote fetch fails, the
  quote is fetched exactly 3 times (with waits of 2 and 4 seconds between) and the answer
  is a 503; when the quote was fetched and every fetch of the swap transaction fails, that
  fetch is made exactly 3 times and the answer is a 503. In both cases the store is as
  before the call and no transaction is sent.
\<close>

theorem swap_provider_unavailable:
  assumes "truthy (get_prop body ''walletAddress'')"
    and "truthy (get_prop body ''toToken'')"
    and "swap_amount R (get_prop body ''amount'') = Some a"
    and "fundingKeypair R = Some funding"
    and "PublicKey_ok R (get_prop body ''walletAddress'')"
  shows "((\<forall>k. isl (sw_quote io k)) \<longrightarrow>
            (\<exists>json. swap_tokens R io body paymentSessions =
               ((503, json), paymentSessions,
                [Fetch jupiterQuoteUrl, Wait 2000, Fetch jupiterQuoteUrl, Wait 4000,
                 Fetch jupiterQuoteUrl]))) \<and>
         (\<forall>quoteData events1.
            fetch_loop jupiterQuoteUrl (sw_quote io) maxQuoteRetries 0 =
              (Fetched quoteData, events1) \<and>
            (\<forall>k. isl (sw_swap io k)) \<longrightarrow>
            (\<exists>json. swap_tokens R io body paymentSessions =
               ((503, json), paymentSessions,
                events1 @ [Fetch swapUrl, Wait 2000, Fetch swapUrl, Wait 4000, Fetch swapUrl])))"
proof (intro conjI allI impI)
  assume "\<forall>k. isl (sw_quote io k)"
  then have "fetch_loop jupiterQuoteUrl (sw_quote io) maxQuoteRetries 0 =
      (Unavailable, [Fetch jupiterQuoteUrl, Wait 2000, Fetch jupiterQuoteUrl, Wait 4000,
                     Fetch jupiterQuoteUrl])"
    by (simp add: maxQuoteRetries_def fetch_loop_all_fail)
  then show "\<exists>json. swap_tokens R io body paymentSessions =
               ((503, json), paymentSessions,
                [Fetch jupiterQuoteUrl, Wait 2000, Fetch jupiterQuoteUrl, Wait 4000,
                 Fetch jupiterQuoteUrl])"
    by (simp add: swap_tokens_quote_unavailable [OF assms])
next
  fix quoteData events1
  assume a: "fetch_loop jupiterQuoteUrl (sw_quote io) maxQuoteRetries 0 =
              (Fetched quoteData, events1) \<and> (\<forall>k. isl (sw_swap io k))"
  then have "fetch_loop swapUrl (sw_swap io) maxSwapRetries 0 =
      (Unavailable, [Fetch swapUrl, Wait 2000, Fetch swapUrl, Wait 4000, Fetch swapUrl])"
    by (simp add: maxSwapRetries_def fetch_loop_all_fail)
  with a show "\<exists>json. swap_tokens R io body paymentSessions =
               ((503, json), paymentSessions,
                events1 @ [Fetch swapUrl, Wait 2000, Fetch swapUrl, Wait 4000, Fetch swapUrl])"
    by (simp add: swap_tokens_swap_unavailable [OF assms])
qed

theorem swap_provider_unavailable_witness:
  "(\<exists>json. swap_tokens example_runtime
       (example_swap_io (\<lambda>k. Inl ''request timed out'') (\<lambda>k. Inr ()))
       example_swap_body (example_store True) =
       ((503, json), example_store True,
        [Fetch jupiterQuoteUrl, Wait 2000, Fetch jupiterQuoteUrl, Wait 4000,
         Fetch jupiterQuoteUrl])) \<and>
   (\<exists>json. swap_tokens example_runtime
       (example_swap_io (\<lambda>k. Inr example_quote) (\<lambda>k. Inl ''request timed out''))
       example_swap_body (example_store True) =
       ((503, json), example_store True,
        [Fetch jupiterQuoteUrl, Fetch swapUrl, Wait 2000, Fetch swapUrl, Wait 4000,
         Fetch swapUrl]))"
proof -
  have q: "fetch_loop jupiterQuoteUrl (\<lambda>k. Inr example_quote) maxQuoteRetries 0 =
             (Fetched example_quote, [Fetch jupiterQuoteUrl])"
    by (subst fetch_loop.simps) (simp add: maxQuoteRetries_def)
  have f: "sw_quote (example_swap_io a b) = a" "sw_swap (example_swap_io a b) = b" for a b
    by (simp_all add: example_swap_io_def)
  from swap_provider_unavailable [OF example_swap_request(1,2,3) example_transfer_request(2)
      example_swap_request(4),
      of "example_swap_io (\<lambda>k. Inl ''request timed out'') (\<lambda>k. Inr ())" "example_store True"]
    swap_provider_unavailable [OF example_swap_request(1,2,3) example_transfer_request(2)
      example_swap_request(4),
      of "example_swap_io (\<lambda>k. Inr example_quote) (\<lambda>k. Inl ''request timed out'')"
      "example_store True"]
  show ?thesis
    by (simp add: f q)
qed

subsection \<open>Session status over sequences of calls\<close>













end
